theory Spec2Isabelle
  imports Main "HOL-Library.Sublist"
begin

section \<open>Values, errors and strings\<close>

text \<open>
  The TypeScript sources are embedded as HOL functions. Numbers that the code uses as
  identifiers, priorities and repeat intervals are modelled as \<open>int\<close> (the integers a
  JavaScript double represents exactly); an optional field \<open>x?: T\<close> is a \<open>T option\<close>,
  \<open>None\<close> standing for \<open>undefined\<close>. Strings are \<open>string\<close>.
\<close>

datatype ErrorCode = VALIDATION_ERROR | API_ERROR | NOT_IMPLEMENTED | INTERNAL_ERROR | AUTH_REQUIRED

text \<open>The \<open>vikunjaError\<close> details object that \<open>rollbackTaskCreation\<close> attaches to its error.\<close>

record vikunjaError =
  ve_taskId :: "int option"
  ve_partiallyCreated :: bool
  ve_labelsAdded :: bool
  ve_assigneesAdded :: bool
  ve_rollbackSucceeded :: bool

text \<open>
  A thrown value is either an \<open>MCPError\<close> (code, message, optional details) or any other
  \<open>Error\<close>, of which the code only ever reads the message.
\<close>

datatype error = MCPError ErrorCode string "vikunjaError option" | Error string

fun message :: "error \<Rightarrow> string" where
  "message (MCPError c m d) = m"
| "message (Error m) = m"

fun instanceof_MCPError :: "error \<Rightarrow> bool" where
  "instanceof_MCPError (MCPError c m d) = True"
| "instanceof_MCPError (Error m) = False"

fun code_of :: "error \<Rightarrow> ErrorCode option" where
  "code_of (MCPError c m d) = Some c"
| "code_of (Error m) = None"

text \<open>\<open>String.prototype.includes\<close>.\<close>

fun str_includes :: "string \<Rightarrow> string \<Rightarrow> bool" where
  "str_includes [] sub = (sub = [])"
| "str_includes (c # cs) sub = (prefix sub (c # cs) \<or> str_includes cs sub)"

text \<open>
  The decimal text of an integer, as a template literal \<open>${n}\<close> prints it. (A number of
  10^21 or more is printed in exponent form by the code; here all its digits are printed.)
\<close>

definition digit_char :: "nat \<Rightarrow> char" where
  "digit_char n = (''0123456789'' ! (n mod 10))"

function show_nat :: "nat \<Rightarrow> string" where
  "show_nat n = (if n < 10 then [digit_char n] else show_nat (n div 10) @ [digit_char n])"
  by pat_completeness auto
termination
  by (relation "measure (\<lambda>n. n)") auto

declare show_nat.simps [simp del]

definition show_int :: "int \<Rightarrow> string" where
  "show_int i = (if i < 0 then CHR ''-'' # show_nat (nat (- i)) else show_nat (nat i))"

text \<open>JavaScript truthiness of an optional number, string and array.\<close>

fun truthy_num :: "int option \<Rightarrow> bool" where
  "truthy_num None = False"
| "truthy_num (Some n) = (n \<noteq> 0)"

fun truthy_str :: "string option \<Rightarrow> bool" where
  "truthy_str None = False"
| "truthy_str (Some s) = (s \<noteq> [])"

section \<open>Validation utilities (tools/tasks/validation.ts)\<close>

subsection \<open>validateDateString\<close>

text \<open>
  The regular expression \<open>/^\d{4}-\d{2}-\d{2}T\d{2}:\d{2}:\d{2}\.\d{3}Z$/\<close> as a list of
  character classes: \<open>D\<close> is \<open>\d\<close>, \<open>L c\<close> the literal \<open>c\<close>.
\<close>

datatype cclass = D | L char

definition is_digit :: "char \<Rightarrow> bool" where
  "is_digit c = (c \<in> set ''0123456789'')"

fun cclass_ok :: "cclass \<Rightarrow> char \<Rightarrow> bool" where
  "cclass_ok D c = is_digit c"
| "cclass_ok (L l) c = (c = l)"

fun regex_test :: "cclass list \<Rightarrow> string \<Rightarrow> bool" where
  "regex_test [] [] = True"
| "regex_test (p # ps) (c # cs) = (cclass_ok p c \<and> regex_test ps cs)"
| "regex_test _ _ = False"

definition isoWithMillisecondsRegex :: "cclass list" where
  "isoWithMillisecondsRegex =
     [D, D, D, D, L (CHR ''-''), D, D, L (CHR ''-''), D, D, L (CHR ''T''),
      D, D, L (CHR '':''), D, D, L (CHR '':''), D, D, L (CHR ''.''), D, D, D, L (CHR ''Z'')]"

text \<open>
  \<open>new Date(date)\<close> followed by \<open>isNaN(parsed.getTime())\<close>, for a string of the shape the
  regular expression admits. The server runs on Node.js, whose ISO date parser (V8) checks
  each field against a fixed range and nothing else: month 1 to 12, day 1 to 31 whatever
  the month, hour 0 to 23, minute and second 0 to 59, and 24:00:00.000 as the end of a day.
  A day beyond the month's last one rolls over into the next month; it does not give NaN.
\<close>

definition digit_val :: "char \<Rightarrow> nat" where
  "digit_val c = (of_char c :: nat) - 48"

definition number_of :: "string \<Rightarrow> nat" where
  "number_of s = foldl (\<lambda>n c. 10 * n + digit_val c) 0 s"

record dateFields =
  df_year :: nat
  df_month :: nat
  df_day :: nat
  df_hour :: nat
  df_minute :: nat
  df_second :: nat
  df_millisecond :: nat

definition substring :: "string \<Rightarrow> nat \<Rightarrow> nat \<Rightarrow> string" where
  "substring s from to = take (to - from) (drop from s)"

definition iso_fields :: "string \<Rightarrow> dateFields" where
  "iso_fields s =
     \<lparr>df_year = number_of (substring s 0 4), df_month = number_of (substring s 5 7),
      df_day = number_of (substring s 8 10), df_hour = number_of (substring s 11 13),
      df_minute = number_of (substring s 14 16), df_second = number_of (substring s 17 19),
      df_millisecond = number_of (substring s 20 23)\<rparr>"

definition Date_isNaN :: "string \<Rightarrow> bool" where
  "Date_isNaN s =
     (let f = iso_fields s in
      \<not> (1 \<le> df_month f \<and> df_month f \<le> 12 \<and> 1 \<le> df_day f \<and> df_day f \<le> 31 \<and>
         (df_hour f \<le> 23 \<and> df_minute f \<le> 59 \<and> df_second f \<le> 59 \<or>
          df_hour f = 24 \<and> df_minute f = 0 \<and> df_second f = 0 \<and> df_millisecond f = 0)))"

definition validateDateString :: "string \<Rightarrow> string \<Rightarrow> error + unit" where
  "validateDateString date fieldName =
     (if \<not> regex_test isoWithMillisecondsRegex date then
        Inl (MCPError VALIDATION_ERROR
          (fieldName @ '' must be in ISO 8601 format with milliseconds: YYYY-MM-DDTHH:mm:ss.sssZ. Example: 2025-10-30T04:05:22.422Z. Received: '' @ date)
          None)
      else if Date_isNaN date then
        Inl (MCPError VALIDATION_ERROR (fieldName @ '' must be a valid date. Received: '' @ date) None)
      else Inr ())"

text \<open>
  What the specification asks of an accepted string beyond its shape: that it names a real
  calendar date and time of day. This definition follows the specification's words, for
  comparison with what \<open>validateDateString\<close> accepts.
\<close>

definition leap_year :: "nat \<Rightarrow> bool" where
  "leap_year y = (y mod 4 = 0 \<and> (y mod 100 \<noteq> 0 \<or> y mod 400 = 0))"

definition days_in_month :: "nat \<Rightarrow> nat \<Rightarrow> nat" where
  "days_in_month y m =
     (if m = 2 then (if leap_year y then 29 else 28)
      else if m = 4 \<or> m = 6 \<or> m = 9 \<or> m = 11 then 30 else 31)"

definition real_calendar_datetime :: "string \<Rightarrow> bool" where
  "real_calendar_datetime s =
     (let f = iso_fields s in
      1 \<le> df_month f \<and> df_month f \<le> 12 \<and>
      1 \<le> df_day f \<and> df_day f \<le> days_in_month (df_year f) (df_month f) \<and>
      df_hour f \<le> 23 \<and> df_minute f \<le> 59 \<and> df_second f \<le> 59)"

subsection \<open>convertRepeatConfiguration\<close>

datatype RepeatMode = day | week | month | year

record repeatConfig =
  repeat_after_c :: "int option"
  repeat_mode_c :: "int option"

text \<open>
  A JavaScript number is an IEEE double, and \<open>*\<close> rounds the exact product to the nearest
  double, ties to the even one. On integers this is modelled exactly: an integer that takes
  more than 53 bits keeps its 53 leading bits, rounded. (Products of 2^1024 and more, which
  give Infinity, and numbers with a fractional part are outside the model.)
  \<open>excess_bits x\<close> is the number of low bits of \<open>x\<close> that a double cannot hold.
  So \<open>int\<close> stands for the integer-valued numbers, with the arithmetic of the code.
\<close>

function excess_bits :: "int \<Rightarrow> nat" where
  "excess_bits x = (if x < 2 ^ 53 then 0 else Suc (excess_bits (x div 2)))"
  by pat_completeness auto
termination
proof (relation "measure nat")
  show "wf (measure nat)"
    by simp
next
  fix x :: int
  assume "\<not> x < 2 ^ 53"
  then have "0 < x"
    by simp
  then show "(x div 2, x) \<in> measure nat"
    by simp
qed

declare excess_bits.simps [simp del]

text \<open>The nearest double to a non-negative integer, and to any integer.\<close>

definition round_double_mag :: "int \<Rightarrow> int" where
  "round_double_mag x =
     (let q = 2 ^ excess_bits x; d = x div q; r = x mod q
      in if q < 2 * r \<or> (2 * r = q \<and> odd d) then (d + 1) * q else d * q)"

definition round_double :: "int \<Rightarrow> int" where
  "round_double x = (if x < 0 then - round_double_mag (- x) else round_double_mag x)"

definition js_times :: "int \<Rightarrow> int \<Rightarrow> int" where
  "js_times a b = round_double (a * b)"

text \<open>The products are taken left to right, as \<open>repeatAfter * 7 * 24 * 60 * 60\<close> is.\<close>

definition convertRepeatConfiguration :: "int option \<Rightarrow> RepeatMode option \<Rightarrow> repeatConfig" where
  "convertRepeatConfiguration repeatAfter repeatMode =
     (if repeatMode = Some month then
        \<lparr>repeat_after_c =
           (case repeatAfter of
              None \<Rightarrow> None
            | Some n \<Rightarrow> Some (js_times (js_times (js_times (js_times n 30) 24) 60) 60)),
         repeat_mode_c = Some 1\<rparr>
      else
        (case repeatAfter of
           None \<Rightarrow> \<lparr>repeat_after_c = None, repeat_mode_c = None\<rparr>
         | Some n \<Rightarrow>
             \<lparr>repeat_after_c =
                (case repeatMode of
                   Some day \<Rightarrow> Some (js_times (js_times (js_times n 24) 60) 60)
                 | Some week \<Rightarrow> Some (js_times (js_times (js_times (js_times n 7) 24) 60) 60)
                 | Some year \<Rightarrow> Some (js_times (js_times (js_times (js_times n 365) 24) 60) 60)
                 | _ \<Rightarrow> Some n),
              repeat_mode_c = Some 0\<rparr>))"

section \<open>The remote service and the effects of a workflow\<close>

text \<open>
  A value the remote service or a response holds without a static type: a number, a string,
  a boolean, an array, an object, or (\<open>JBuiltin\<close>) one of the functions and objects that
  every JavaScript object inherits from \<open>Object.prototype\<close>, named by its property.
\<close>

datatype jsval = JNum int | JStr string | JBool bool | JArr "jsval list"
  | JObj "(string \<times> jsval) list" | JBuiltin string

text \<open>
  A task as the client library returns it; only the fields the modelled code reads or
  writes are kept. \<open>task_assignees\<close> holds the identifiers of the assignee users,
  \<open>related_tasks\<close> those of the related tasks.
\<close>

record Task =
  task_id :: "int option"
  task_title :: "string option"
  task_description :: "string option"
  due_date :: "string option"
  task_priority :: "int option"
  task_done :: "bool option"
  repeat_after :: "int option"
  repeat_mode :: "jsval option"
  project_id :: "int option"
  task_assignees :: "int list option"
  related_tasks :: "int list option"

record Project =
  proj_id :: "int option"
  proj_title :: "string option"

text \<open>The calls a workflow issues to the remote service through the client.\<close>

datatype call =
    GetTask int
  | CreateTask int Task
  | UpdateTask int Task
  | DeleteTask int
  | UpdateTaskLabels int "int list"
  | BulkAssignUsersToTask int "int list"
  | RemoveUserFromTask int int
  | CreateTaskRelation int int int jsval
  | DeleteTaskRelation int jsval int
  | GetProjects
  | GetProject int
  | GetAllTasks "string option"

text \<open>
  The remote service is any deterministic responder: what it answers to a call may depend
  on every call issued before. A workflow threads the log of the calls issued so far, so
  a theorem can say which calls were made, in which order, and that none was made.
\<close>

record client =
  task_reply :: "call list \<Rightarrow> call \<Rightarrow> error + Task"
  unit_reply :: "call list \<Rightarrow> call \<Rightarrow> error + unit"
  projects_reply :: "call list \<Rightarrow> call \<Rightarrow> error + Project list"
  project_reply :: "call list \<Rightarrow> call \<Rightarrow> error + Project"
  tasks_reply :: "call list \<Rightarrow> call \<Rightarrow> error + Task list"

type_synonym 'a io = "call list \<Rightarrow> (error + 'a) \<times> call list"

definition return :: "'a \<Rightarrow> 'a io" where
  "return x log = (Inr x, log)"

definition throw :: "error \<Rightarrow> 'a io" where
  "throw e log = (Inl e, log)"

definition lift :: "error + 'a \<Rightarrow> 'a io" where
  "lift r log = (r, log)"

definition await :: "'a io \<Rightarrow> ('a \<Rightarrow> 'b io) \<Rightarrow> 'b io" where
  "await m f log = (case m log of (Inl e, log') \<Rightarrow> (Inl e, log') | (Inr x, log') \<Rightarrow> f x log')"

definition try_catch :: "'a io \<Rightarrow> (error \<Rightarrow> 'a io) \<Rightarrow> 'a io" where
  "try_catch m handler log =
     (case m log of (Inl e, log') \<Rightarrow> handler e log' | (Inr x, log') \<Rightarrow> (Inr x, log'))"

definition remote :: "(call list \<Rightarrow> call \<Rightarrow> error + 'a) \<Rightarrow> call \<Rightarrow> 'a io" where
  "remote reply c log = (reply log c, log @ [c])"

definition tasks_getTask :: "client \<Rightarrow> int \<Rightarrow> Task io" where
  "tasks_getTask cl i = remote (task_reply cl) (GetTask i)"

definition tasks_createTask :: "client \<Rightarrow> int \<Rightarrow> Task \<Rightarrow> Task io" where
  "tasks_createTask cl p t = remote (task_reply cl) (CreateTask p t)"

definition tasks_updateTask :: "client \<Rightarrow> int \<Rightarrow> Task \<Rightarrow> unit io" where
  "tasks_updateTask cl i t = remote (unit_reply cl) (UpdateTask i t)"

definition tasks_deleteTask :: "client \<Rightarrow> int \<Rightarrow> unit io" where
  "tasks_deleteTask cl i = remote (unit_reply cl) (DeleteTask i)"

definition tasks_updateTaskLabels :: "client \<Rightarrow> int \<Rightarrow> int list \<Rightarrow> unit io" where
  "tasks_updateTaskLabels cl i ls = remote (unit_reply cl) (UpdateTaskLabels i ls)"

definition tasks_bulkAssignUsersToTask :: "client \<Rightarrow> int \<Rightarrow> int list \<Rightarrow> unit io" where
  "tasks_bulkAssignUsersToTask cl i us = remote (unit_reply cl) (BulkAssignUsersToTask i us)"

definition tasks_removeUserFromTask :: "client \<Rightarrow> int \<Rightarrow> int \<Rightarrow> unit io" where
  "tasks_removeUserFromTask cl i u = remote (unit_reply cl) (RemoveUserFromTask i u)"

definition tasks_createTaskRelation :: "client \<Rightarrow> int \<Rightarrow> int \<Rightarrow> int \<Rightarrow> jsval \<Rightarrow> unit io" where
  "tasks_createTaskRelation cl i tid other kind = remote (unit_reply cl) (CreateTaskRelation i tid other kind)"

definition tasks_deleteTaskRelation :: "client \<Rightarrow> int \<Rightarrow> jsval \<Rightarrow> int \<Rightarrow> unit io" where
  "tasks_deleteTaskRelation cl i kind other = remote (unit_reply cl) (DeleteTaskRelation i kind other)"

definition projects_getProjects :: "client \<Rightarrow> Project list io" where
  "projects_getProjects cl = remote (projects_reply cl) GetProjects"

definition projects_getProject :: "client \<Rightarrow> int \<Rightarrow> Project io" where
  "projects_getProject cl i = remote (project_reply cl) (GetProject i)"

text \<open>
  The argument bag of the \<open>vikunja_tasks\<close> tool, which every handler receives; the fields
  that only choose the response's formatting are left out.
\<close>

record args =
  subcommand :: string
  id_arg :: "int option"
  title :: "string option"
  description :: "string option"
  projectId :: "int option"
  dueDate :: "string option"
  priority :: "int option"
  done_arg :: "bool option"
  labels :: "int list option"
  assignees :: "int list option"
  repeatAfter :: "int option"
  repeatMode :: "RepeatMode option"
  filter_expr :: "string option"
  otherTaskId :: "int option"
  relationKind :: "string option"

text \<open>
  \<open>createTaskResponse\<close> (TaskResponseFormatter) is not among the sources: a response is
  modelled as what the handler hands to it, the operation tag, the message, the payload and
  the metadata object, whose keys vary by operation.
\<close>

datatype payload = TaskPayload Task | TasksPayload "Task list" | DeletedTaskId int

record response =
  operation :: string
  message_of :: string
  data :: payload
  metadata :: "(string \<times> jsval) list"

text \<open>
  What the modelled files import from files that are not part of the sources: the client of
  the request, the clock, the authentication state, the error classifiers of
  \<open>utils/error-handler\<close> and \<open>utils/auth-error-handler\<close>, the retry budget of
  \<open>utils/retry\<close>, the texts of \<open>AUTH_ERROR_MESSAGES\<close>, the message of \<open>validateId\<close>, the
  handlers of the subcommands kept in other files, and the filter machinery. They are
  parameters: every theorem holds whatever they are.
\<close>

record ctx =
  getClientFromContext :: "error + client"
  isAuthenticated :: bool
  setGlobalClientFactory :: "error option"
  createAuthRequiredError :: "string \<Rightarrow> error"
  now :: string
  isAuthenticationError :: "error \<Rightarrow> bool"
  maxRetries :: nat
  retriesExhausted :: "error \<Rightarrow> error"
  LABEL_CREATE :: string
  ASSIGNEE_CREATE :: string
  LABEL_UPDATE :: string
  ASSIGNEE_UPDATE :: string
  ASSIGNEE_REMOVE_PARTIAL :: string
  handleFetchError :: "error \<Rightarrow> string \<Rightarrow> error"
  handleStatusCodeError :: "error \<Rightarrow> string \<Rightarrow> int \<Rightarrow> string \<Rightarrow> error"
  transformApiError :: "error \<Rightarrow> string \<Rightarrow> error"
  wrapUnclassified :: "error \<Rightarrow> string \<Rightarrow> string \<Rightarrow> string \<Rightarrow> error"
  validateId_message :: "int option \<Rightarrow> string \<Rightarrow> string"
  knownIncompatible :: "string \<Rightarrow> bool"
  isFilterRejection :: "error \<Rightarrow> bool"
  evaluateFilter :: "string \<Rightarrow> Task \<Rightarrow> bool"
  getSessionStorage :: "error option"
  otherHandlers :: "string \<Rightarrow> args \<Rightarrow> call list \<Rightarrow> (error + response) \<times> call list"

text \<open>
  Modelled from the spec: \<open>validateId\<close> of \<open>utils/validation\<close> is not among the sources.
  The specification: it fails, with a ValidationError, unless its argument is an integer
  that is at least 1. (At run time the argument may also be \<open>undefined\<close>, which is no such
  integer.)
\<close>

definition validateId :: "ctx \<Rightarrow> int option \<Rightarrow> string \<Rightarrow> error + unit" where
  "validateId cx n fieldName =
     (case n of
        Some v \<Rightarrow> if 1 \<le> v then Inr ()
                  else Inl (MCPError VALIDATION_ERROR (validateId_message cx n fieldName) None)
      | None \<Rightarrow> Inl (MCPError VALIDATION_ERROR (validateId_message cx n fieldName) None))"

text \<open>
  The catch block that \<open>getTask\<close>, \<open>updateTask\<close> and \<open>deleteTask\<close> share word for word, up to
  the operation's name: an \<open>MCPError\<close> is thrown again as it is; a connection failure goes
  to \<open>handleFetchError\<close>; anything else to \<open>handleStatusCodeError\<close> when the identifier is
  truthy, to \<open>transformApiError\<close> otherwise.
\<close>

definition isFetchFailure :: "error \<Rightarrow> bool" where
  "isFetchFailure e =
     (str_includes (message e) ''fetch failed'' \<or> str_includes (message e) ''ECONNREFUSED''
      \<or> str_includes (message e) ''ENOTFOUND'')"

definition crudCatch :: "ctx \<Rightarrow> string \<Rightarrow> int option \<Rightarrow> error \<Rightarrow> error" where
  "crudCatch cx opname i e =
     (if instanceof_MCPError e then e
      else if isFetchFailure e then handleFetchError cx e (opname @ '' task'')
      else (case i of
              Some n \<Rightarrow>
                if n \<noteq> 0 then
                  handleStatusCodeError cx e (opname @ '' task'') n (''Task with ID '' @ show_int n @ '' not found'')
                else transformApiError cx e (''Failed to '' @ opname @ '' task'')
            | None \<Rightarrow> transformApiError cx e (''Failed to '' @ opname @ '' task'')))"

section \<open>Reading a task (crud/TaskReadService.ts)\<close>

definition getTask_idRequired :: error where
  \<open>getTask_idRequired = MCPError VALIDATION_ERROR
     ''Task ID is required for get operation. Please provide the "id" parameter with a valid task ID number. Example: { "subcommand": "get", "id": 123 }''
     None\<close>

definition show_opt :: "string option \<Rightarrow> string" where
  "show_opt s = (case s of None \<Rightarrow> ''undefined'' | Some v \<Rightarrow> v)"

definition getTask :: "ctx \<Rightarrow> args \<Rightarrow> response io" where
  \<open>getTask cx a =
     try_catch
       (case id_arg a of
          None \<Rightarrow> throw getTask_idRequired
        | Some i \<Rightarrow>
            if i = 0 then throw getTask_idRequired
            else
              await (lift (validateId cx (Some i) ''id'')) (\<lambda>_.
              await (lift (getClientFromContext cx)) (\<lambda>cl.
              await (tasks_getTask cl i) (\<lambda>task.
              return \<lparr>operation = ''get-task'',
                      message_of = ''Retrieved task "'' @ show_opt (task_title task) @ ''"'',
                      data = TaskPayload task,
                      metadata = [(''timestamp'', JStr (now cx)), (''taskId'', JNum i)]\<rparr>))))
       (\<lambda>e. throw (crudCatch cx ''get'' (id_arg a) e))\<close>

section \<open>Deleting a task (crud/TaskDeletionService.ts)\<close>

record DeletionContext =
  taskToDelete :: "Task option"
  retrievalSuccess :: bool

definition gatherDeletionContext :: "client \<Rightarrow> int \<Rightarrow> DeletionContext io" where
  "gatherDeletionContext cl taskId =
     try_catch
       (await (tasks_getTask cl taskId) (\<lambda>t. return \<lparr>taskToDelete = Some t, retrievalSuccess = True\<rparr>))
       (\<lambda>e. return \<lparr>taskToDelete = None, retrievalSuccess = False\<rparr>)"

definition deleteTask_idRequired :: error where
  \<open>deleteTask_idRequired = MCPError VALIDATION_ERROR
     ''Task ID is required for delete operation. Please provide the "id" parameter with a valid task ID number. Example: { "subcommand": "delete", "id": 123 }''
     None\<close>

definition deleteTask_response :: "ctx \<Rightarrow> int \<Rightarrow> DeletionContext \<Rightarrow> response" where
  \<open>deleteTask_response cx i deletionContext =
     \<lparr>operation = ''delete-task'',
      message_of =
        (case taskToDelete deletionContext of
           Some t \<Rightarrow> ''Task "'' @ show_opt (task_title t) @ ''" deleted successfully''
         | None \<Rightarrow> ''Task '' @ show_int i @ '' deleted successfully''),
      data =
        (case taskToDelete deletionContext of
           Some t \<Rightarrow> TaskPayload t
         | None \<Rightarrow> DeletedTaskId i),
      metadata =
        [(''timestamp'', JStr (now cx)), (''taskId'', JNum i)] @
        (case taskToDelete deletionContext of
           Some t \<Rightarrow> (case task_title t of
                        Some ttl \<Rightarrow> if ttl \<noteq> [] then [(''taskTitle'', JStr ttl)] else []
                      | None \<Rightarrow> [])
         | None \<Rightarrow> [])\<rparr>\<close>

definition deleteTask :: "ctx \<Rightarrow> args \<Rightarrow> response io" where
  "deleteTask cx a =
     try_catch
       (case id_arg a of
          None \<Rightarrow> throw deleteTask_idRequired
        | Some i \<Rightarrow>
            if i = 0 then throw deleteTask_idRequired
            else
              await (lift (validateId cx (Some i) ''id'')) (\<lambda>_.
              await (lift (getClientFromContext cx)) (\<lambda>cl.
              await (gatherDeletionContext cl i) (\<lambda>deletionContext.
              await (tasks_deleteTask cl i) (\<lambda>_.
              return (deleteTask_response cx i deletionContext))))))
       (\<lambda>e. throw (crudCatch cx ''delete'' (id_arg a) e))"

section \<open>Updating a task (crud/TaskUpdateService.ts)\<close>

record UpdateState =
  currentTask :: Task
  previousState :: "(string \<times> jsval) list"
  affectedFields :: "string list"

fun field :: "string \<Rightarrow> ('a \<Rightarrow> jsval) \<Rightarrow> 'a option \<Rightarrow> (string \<times> jsval) list" where
  "field k f None = []"
| "field k f (Some v) = [(k, f v)]"

definition previousState_of :: "Task \<Rightarrow> (string \<times> jsval) list" where
  "previousState_of t =
     field ''title'' JStr (task_title t) @ field ''description'' JStr (task_description t) @
     field ''due_date'' JStr (due_date t) @ field ''priority'' JNum (task_priority t) @
     field ''done'' JBool (task_done t) @ field ''repeat_after'' JNum (repeat_after t) @
     field ''repeat_mode'' (\<lambda>v. v) (repeat_mode t)"

fun repeatMode_text :: "RepeatMode \<Rightarrow> string" where
  "repeatMode_text day = ''day''"
| "repeatMode_text week = ''week''"
| "repeatMode_text month = ''month''"
| "repeatMode_text year = ''year''"

text \<open>
  \<open>pushed_if b name\<close> is \<open>if (b) affectedFields.push(name)\<close>. A requested repeat mode is a
  string; \<open>!==\<close> compares it with whatever the fetched task holds in \<open>repeat_mode\<close>.
\<close>

definition pushed_if :: "bool \<Rightarrow> string \<Rightarrow> string list" where
  "pushed_if b name = (if b then [name] else [])"

definition affectedFields_of :: "args \<Rightarrow> Task \<Rightarrow> string list" where
  "affectedFields_of a t =
     pushed_if (title a \<noteq> None \<and> title a \<noteq> task_title t) ''title'' @
     pushed_if (description a \<noteq> None \<and> description a \<noteq> task_description t) ''description'' @
     pushed_if (dueDate a \<noteq> None \<and> dueDate a \<noteq> due_date t) ''dueDate'' @
     pushed_if (priority a \<noteq> None \<and> priority a \<noteq> task_priority t) ''priority'' @
     pushed_if (done_arg a \<noteq> None \<and> done_arg a \<noteq> task_done t) ''done'' @
     pushed_if (repeatAfter a \<noteq> None \<and> repeatAfter a \<noteq> repeat_after t) ''repeatAfter'' @
     pushed_if (repeatMode a \<noteq> None \<and>
                map_option (\<lambda>m. JStr (repeatMode_text m)) (repeatMode a) \<noteq> repeat_mode t) ''repeatMode'' @
     pushed_if (labels a \<noteq> None) ''labels'' @
     pushed_if (assignees a \<noteq> None) ''assignees''"

definition analyzeUpdateState :: "client \<Rightarrow> int \<Rightarrow> args \<Rightarrow> UpdateState io" where
  "analyzeUpdateState cl taskId a =
     await (tasks_getTask cl taskId) (\<lambda>t.
     return \<lparr>currentTask = t, previousState = previousState_of t,
             affectedFields = affectedFields_of a t\<rparr>)"

definition buildUpdateData :: "Task \<Rightarrow> args \<Rightarrow> Task" where
  "buildUpdateData t a =
     (let t1 = (case title a of None \<Rightarrow> t | Some v \<Rightarrow> t\<lparr>task_title := Some v\<rparr>);
          t2 = (case description a of None \<Rightarrow> t1 | Some v \<Rightarrow> t1\<lparr>task_description := Some v\<rparr>);
          t3 = (case dueDate a of None \<Rightarrow> t2 | Some v \<Rightarrow> t2\<lparr>due_date := Some v\<rparr>);
          t4 = (case priority a of None \<Rightarrow> t3 | Some v \<Rightarrow> t3\<lparr>task_priority := Some v\<rparr>);
          t5 = (case done_arg a of None \<Rightarrow> t4 | Some v \<Rightarrow> t4\<lparr>task_done := Some v\<rparr>)
      in if repeatAfter a \<noteq> None \<or> repeatMode a \<noteq> None then
           (let rc = convertRepeatConfiguration
                       (if repeatAfter a \<noteq> None then repeatAfter a else repeat_after t)
                       (repeatMode a);
                t6 = (case repeat_after_c rc of None \<Rightarrow> t5 | Some v \<Rightarrow> t5\<lparr>repeat_after := Some v\<rparr>)
            in (case repeat_mode_c rc of None \<Rightarrow> t6 | Some v \<Rightarrow> t6\<lparr>repeat_mode := Some (JNum v)\<rparr>))
         else t5)"

definition updateTaskLabels :: "ctx \<Rightarrow> client \<Rightarrow> int \<Rightarrow> int list \<Rightarrow> unit io" where
  "updateTaskLabels cx cl taskId labelIds =
     try_catch (tasks_updateTaskLabels cl taskId labelIds)
       (\<lambda>labelError.
          if isAuthenticationError cx labelError then throw (MCPError API_ERROR (LABEL_UPDATE cx) None)
          else throw labelError)"

text \<open>The assignee diff: the two \<open>filter\<close> calls of \<open>updateTaskAssignees\<close>.\<close>

definition toAdd :: "int list \<Rightarrow> int list \<Rightarrow> int list" where
  "toAdd newAssigneeIds currentAssigneeIds = filter (\<lambda>i. i \<notin> set currentAssigneeIds) newAssigneeIds"

definition toRemove :: "int list \<Rightarrow> int list \<Rightarrow> int list" where
  "toRemove newAssigneeIds currentAssigneeIds = filter (\<lambda>i. i \<notin> set newAssigneeIds) currentAssigneeIds"

definition currentAssigneeIds_of :: "Task \<Rightarrow> int list" where
  "currentAssigneeIds_of t = (case task_assignees t of None \<Rightarrow> [] | Some ids \<Rightarrow> ids)"

text \<open>The loop \<open>for (const userId of toRemove)\<close>, which stops at the first removal that fails.\<close>

fun removeUsers :: "ctx \<Rightarrow> client \<Rightarrow> int \<Rightarrow> int list \<Rightarrow> unit io" where
  "removeUsers cx cl taskId [] log = (Inr (), log)"
| "removeUsers cx cl taskId (userId # rest) log =
     (case tasks_removeUserFromTask cl taskId userId log of
        (Inl removeError, log') \<Rightarrow>
          (if isAuthenticationError cx removeError
           then (Inl (MCPError API_ERROR (ASSIGNEE_REMOVE_PARTIAL cx) None), log')
           else (Inl removeError, log'))
      | (Inr u, log') \<Rightarrow> removeUsers cx cl taskId rest log')"

definition updateTaskAssignees :: "ctx \<Rightarrow> client \<Rightarrow> int \<Rightarrow> int list \<Rightarrow> unit io" where
  "updateTaskAssignees cx cl taskId newAssigneeIds =
     try_catch
       (await (tasks_getTask cl taskId) (\<lambda>t.
        await (if length (toAdd newAssigneeIds (currentAssigneeIds_of t)) > 0
               then tasks_bulkAssignUsersToTask cl taskId (toAdd newAssigneeIds (currentAssigneeIds_of t))
               else return ()) (\<lambda>_.
        removeUsers cx cl taskId (toRemove newAssigneeIds (currentAssigneeIds_of t)))))
       (\<lambda>assigneeError.
          if isAuthenticationError cx assigneeError
          then throw (MCPError API_ERROR
                 (ASSIGNEE_UPDATE cx @ '' (Retried '' @ show_nat (maxRetries cx) @ '' times)'') None)
          else throw assigneeError)"

definition updateTask_idRequired :: error where
  \<open>updateTask_idRequired = MCPError VALIDATION_ERROR
     ''Task ID is required for update operation. Please provide the "id" parameter with a valid task ID number. Example: { "subcommand": "update", "id": 123, "title": "Updated title" }''
     None\<close>

definition useApplyLabel :: "int \<Rightarrow> error" where
  \<open>useApplyLabel i = MCPError VALIDATION_ERROR
     (''To add or remove labels from a task, use the "apply-label" subcommand instead of "update". Example: { "subcommand": "apply-label", "id": ''
      @ show_int i @ '', "labels": [1, 2, 3] }. For removing labels, use "remove-label" subcommand.'')
     None\<close>

definition updateTask_response :: "ctx \<Rightarrow> int \<Rightarrow> UpdateState \<Rightarrow> Task \<Rightarrow> response" where
  "updateTask_response cx i updateState completeTask =
     \<lparr>operation = ''update-task'', message_of = ''Task updated successfully'',
      data = TaskPayload completeTask,
      metadata =
        [(''timestamp'', JStr (now cx)),
         (''affectedFields'', JArr (map JStr (affectedFields updateState))),
         (''previousState'', JObj (previousState updateState)),
         (''taskId'', JNum i)]\<rparr>"

definition updateTask :: "ctx \<Rightarrow> args \<Rightarrow> response io" where
  "updateTask cx a =
     try_catch
       (case id_arg a of
          None \<Rightarrow> throw updateTask_idRequired
        | Some i \<Rightarrow>
            if i = 0 then throw updateTask_idRequired
            else
              await (lift (validateId cx (Some i) ''id'')) (\<lambda>_.
              await (case dueDate a of
                       None \<Rightarrow> return ()
                     | Some d \<Rightarrow> if d = [] then return () else lift (validateDateString d ''dueDate'')) (\<lambda>_.
              if labels a \<noteq> None then throw (useApplyLabel i)
              else
                await (lift (getClientFromContext cx)) (\<lambda>cl.
                await (analyzeUpdateState cl i a) (\<lambda>updateState.
                await (tasks_updateTask cl i (buildUpdateData (currentTask updateState) a)) (\<lambda>_.
                await (case labels a of None \<Rightarrow> return () | Some ls \<Rightarrow> updateTaskLabels cx cl i ls) (\<lambda>_.
                await (case assignees a of None \<Rightarrow> return () | Some us \<Rightarrow> updateTaskAssignees cx cl i us) (\<lambda>_.
                await (tasks_getTask cl i) (\<lambda>completeTask.
                return (updateTask_response cx i updateState completeTask))))))))))
       (\<lambda>e. throw (crudCatch cx ''update'' (id_arg a) e))"

section \<open>Finding the target project (crud/InboxDetectionService.ts)\<close>

definition toLowerCase_char :: "char \<Rightarrow> char" where
  "toLowerCase_char c =
     (if 65 \<le> (of_char c :: nat) \<and> (of_char c :: nat) \<le> 90 then char_of ((of_char c :: nat) + 32) else c)"

definition toLowerCase :: "string \<Rightarrow> string" where
  "toLowerCase s = map toLowerCase_char s"

definition alternativeNames :: "string list" where
  "alternativeNames = [''inbox'', ''default'', ''personal'', ''tasks'']"

text \<open>\<open>found p\<close> is the test \<open>p && p.id\<close> on the result of \<open>Array.prototype.find\<close>.\<close>

fun found :: "Project option \<Rightarrow> bool" where
  "found None = False"
| "found (Some p) = truthy_num (proj_id p)"

definition findInboxProject :: "ctx \<Rightarrow> Project io" where
  "findInboxProject cx =
     try_catch
       (await (lift (getClientFromContext cx)) (\<lambda>cl.
        await (projects_getProjects cl) (\<lambda>projects.
          let inboxProject = find (\<lambda>p. map_option toLowerCase (proj_title p) = Some ''inbox'') projects;
              alternativeProject =
                find (\<lambda>p. (case proj_title p of None \<Rightarrow> [] | Some t \<Rightarrow> toLowerCase t) \<in> set alternativeNames)
                  projects
          in (case (if found inboxProject then inboxProject
                    else if found alternativeProject then alternativeProject
                    else (case projects of
                            p # ps \<Rightarrow> if truthy_num (proj_id p) then Some p else None
                          | [] \<Rightarrow> None)) of
                Some p \<Rightarrow> return p
              | None \<Rightarrow> throw (MCPError VALIDATION_ERROR
                         ''No projects found. Please create a project first before creating tasks.'' None)))))
       (\<lambda>e. if instanceof_MCPError e then throw e
            else throw (MCPError API_ERROR
                   (''Failed to find a suitable project for task creation: '' @ message e
                    @ ''. Please specify a projectId explicitly.'') None))"

definition validateProjectExists :: "ctx \<Rightarrow> int \<Rightarrow> Project io" where
  "validateProjectExists cx pid =
     try_catch
       (await (lift (getClientFromContext cx)) (\<lambda>cl. projects_getProject cl pid))
       (\<lambda>e. throw (MCPError VALIDATION_ERROR
              (''Project with ID '' @ show_int pid
               @ '' not found or not accessible. Please check the projectId or omit it to use the Inbox project automatically.'')
              None))"

section \<open>Creating a task (crud/TaskCreationService.ts)\<close>

text \<open>
  Modelled from the spec: \<open>withRetry\<close> of \<open>utils/retry\<close> is not among the sources. The
  specification (4.2): the operation is executed; it is executed again only while
  \<open>shouldRetry\<close> holds of its error and the retry budget remains; every other error
  propagates at once, unmodified; once the budget is used up the wrapper fails with an
  error that adds the retry context to the original cause (\<open>retriesExhausted\<close>).
\<close>

fun withRetry :: "ctx \<Rightarrow> nat \<Rightarrow> (error \<Rightarrow> bool) \<Rightarrow> 'a io \<Rightarrow> 'a io" where
  "withRetry cx 0 shouldRetry op log =
     (case op log of
        (Inl e, log') \<Rightarrow> (Inl (if shouldRetry e then retriesExhausted cx e else e), log')
      | (Inr x, log') \<Rightarrow> (Inr x, log'))"
| "withRetry cx (Suc n) shouldRetry op log =
     (case op log of
        (Inl e, log') \<Rightarrow> (if shouldRetry e then withRetry cx n shouldRetry op log' else (Inl e, log'))
      | (Inr x, log') \<Rightarrow> (Inr x, log'))"

definition addLabelsToTask :: "ctx \<Rightarrow> client \<Rightarrow> int \<Rightarrow> int list \<Rightarrow> unit io" where
  "addLabelsToTask cx cl taskId labelIds =
     try_catch
       (withRetry cx (maxRetries cx) (isAuthenticationError cx) (tasks_updateTaskLabels cl taskId labelIds))
       (\<lambda>labelError.
          if isAuthenticationError cx labelError
          then throw (MCPError API_ERROR
                 (LABEL_CREATE cx @ '' (Retried '' @ show_nat (maxRetries cx) @ '' times). Task ID: ''
                  @ show_int taskId) None)
          else throw labelError)"

definition addAssigneesToTask :: "ctx \<Rightarrow> client \<Rightarrow> int \<Rightarrow> int list \<Rightarrow> unit io" where
  "addAssigneesToTask cx cl taskId assigneeIds =
     try_catch
       (withRetry cx (maxRetries cx) (isAuthenticationError cx) (tasks_bulkAssignUsersToTask cl taskId assigneeIds))
       (\<lambda>assigneeError.
          if isAuthenticationError cx assigneeError
          then throw (MCPError API_ERROR
                 (ASSIGNEE_CREATE cx @ '' (Retried '' @ show_nat (maxRetries cx) @ '' times). Task ID: ''
                  @ show_int taskId) None)
          else throw assigneeError)"

record CreationState =
  createdTask :: Task
  labelsAdded :: bool
  assigneesAdded :: bool

definition rollbackMessage :: "error \<Rightarrow> bool \<Rightarrow> string" where
  "rollbackMessage originalError rollbackSucceeded =
     ''Failed to complete task creation: '' @ message originalError @ ''. '' @
     (if rollbackSucceeded then ''Task was successfully rolled back.''
      else ''Task rollback also failed - manual cleanup may be required.'')"

definition rollbackError :: "CreationState \<Rightarrow> error \<Rightarrow> bool \<Rightarrow> error" where
  "rollbackError creationState originalError rollbackSucceeded =
     MCPError API_ERROR (rollbackMessage originalError rollbackSucceeded)
       (Some \<lparr>ve_taskId = task_id (createdTask creationState), ve_partiallyCreated = True,
              ve_labelsAdded = labelsAdded creationState,
              ve_assigneesAdded = assigneesAdded creationState,
              ve_rollbackSucceeded = rollbackSucceeded\<rparr>)"

definition rollbackTaskCreation :: "client \<Rightarrow> CreationState \<Rightarrow> error \<Rightarrow> 'a io" where
  "rollbackTaskCreation cl creationState originalError log =
     (case task_id (createdTask creationState) of
        None \<Rightarrow> (Inl (rollbackError creationState originalError False), log)
      | Some tid \<Rightarrow>
          if tid = 0 then (Inl (rollbackError creationState originalError False), log)
          else (case tasks_deleteTask cl tid log of
                  (Inr u, log') \<Rightarrow> (Inl (rollbackError creationState originalError True), log')
                | (Inl deleteError, log') \<Rightarrow> (Inl (rollbackError creationState originalError False), log')))"

text \<open>
  The body of the inner \<open>try\<close>: the two secondary steps, each run only for a non-empty list
  and a created task with a truthy identifier. The creation state is updated as the steps
  succeed; a failure returns the error together with the state reached, which is what the
  \<open>catch\<close> clause sees.
\<close>

definition wanted :: "int list option \<Rightarrow> Task \<Rightarrow> bool" where
  "wanted ids created = ((case ids of None \<Rightarrow> False | Some l \<Rightarrow> length l > 0) \<and> truthy_num (task_id created))"

definition applyAssignees ::
    "ctx \<Rightarrow> client \<Rightarrow> args \<Rightarrow> CreationState \<Rightarrow> call list \<Rightarrow> (error + unit) \<times> CreationState \<times> call list" where
  "applyAssignees cx cl a st log =
     (case (assignees a, task_id (createdTask st)) of
        (Some us, Some tid) \<Rightarrow>
          if wanted (assignees a) (createdTask st) then
            (case addAssigneesToTask cx cl tid us log of
               (Inl e, log') \<Rightarrow> (Inl e, st, log')
             | (Inr u, log') \<Rightarrow> (Inr (), st\<lparr>assigneesAdded := True\<rparr>, log'))
          else (Inr (), st, log)
      | _ \<Rightarrow> (Inr (), st, log))"

definition applyLabelsAndAssignees ::
    "ctx \<Rightarrow> client \<Rightarrow> args \<Rightarrow> CreationState \<Rightarrow> call list \<Rightarrow> (error + unit) \<times> CreationState \<times> call list" where
  "applyLabelsAndAssignees cx cl a st log =
     (case (labels a, task_id (createdTask st)) of
        (Some ls, Some tid) \<Rightarrow>
          if wanted (labels a) (createdTask st) then
            (case addLabelsToTask cx cl tid ls log of
               (Inl e, log') \<Rightarrow> (Inl e, st, log')
             | (Inr u, log') \<Rightarrow> applyAssignees cx cl a (st\<lparr>labelsAdded := True\<rparr>) log')
          else applyAssignees cx cl a st log
      | _ \<Rightarrow> applyAssignees cx cl a st log)"

definition createTask_newTask :: "args \<Rightarrow> string \<Rightarrow> int \<Rightarrow> Task" where
  "createTask_newTask a ttl pid =
     (let rc = (if repeatAfter a \<noteq> None \<or> repeatMode a \<noteq> None
                then convertRepeatConfiguration (repeatAfter a) (repeatMode a)
                else \<lparr>repeat_after_c = None, repeat_mode_c = None\<rparr>)
      in \<lparr>task_id = None, task_title = Some ttl, task_description = description a,
          due_date = dueDate a, task_priority = priority a, task_done = None,
          repeat_after = repeat_after_c rc, repeat_mode = map_option JNum (repeat_mode_c rc),
          project_id = Some pid, task_assignees = None, related_tasks = None\<rparr>)"

text \<open>Resolving the project: the given one, checked, or else the detected Inbox.\<close>

definition createTask_project :: "ctx \<Rightarrow> args \<Rightarrow> (int option \<times> bool) io" where
  "createTask_project cx a =
     (if \<not> truthy_num (projectId a) then
        try_catch
          (await (findInboxProject cx) (\<lambda>inboxProject. return (proj_id inboxProject, True)))
          (\<lambda>inboxError. throw (MCPError VALIDATION_ERROR
             (''No projectId provided and failed to find Inbox project automatically. Please specify a projectId explicitly. Error: ''
              @ message inboxError) None))
      else (case projectId a of
              Some pid \<Rightarrow> await (validateProjectExists cx pid) (\<lambda>_. return (projectId a, False))
            | None \<Rightarrow> return (projectId a, False)))"

fun validateIds :: "ctx \<Rightarrow> int list \<Rightarrow> string \<Rightarrow> error + unit" where
  "validateIds cx [] fieldName = Inr ()"
| "validateIds cx (i # rest) fieldName =
     (case validateId cx (Some i) fieldName of Inl e \<Rightarrow> Inl e | Inr u \<Rightarrow> validateIds cx rest fieldName)"

text \<open>
  \<open>createTask\<close> up to and including the call that creates the base task: the result is the
  client, the project, whether the Inbox was detected, and the task as created.
\<close>

definition createTask_upToCreation :: "ctx \<Rightarrow> args \<Rightarrow> (client \<times> int \<times> bool \<times> Task) io" where
  "createTask_upToCreation cx a =
     await (createTask_project cx a) (\<lambda>(projectId', usedInboxDetection).
     await (lift (validateId cx projectId' ''projectId'')) (\<lambda>_.
     (case projectId' of
        None \<Rightarrow> throw (MCPError VALIDATION_ERROR (validateId_message cx None ''projectId'') None)
      | Some pid \<Rightarrow>
         (case title a of
            None \<Rightarrow> throw (MCPError VALIDATION_ERROR ''title is required to create a task'' None)
          | Some ttl \<Rightarrow>
              if ttl = [] then throw (MCPError VALIDATION_ERROR ''title is required to create a task'' None)
              else
                await (case dueDate a of
                         None \<Rightarrow> return ()
                       | Some d \<Rightarrow> if d = [] then return () else lift (validateDateString d ''dueDate'')) (\<lambda>_.
                await (case assignees a of
                         None \<Rightarrow> return ()
                       | Some us \<Rightarrow> lift (validateIds cx us ''assignee ID'')) (\<lambda>_.
                await (lift (getClientFromContext cx)) (\<lambda>cl.
                await (tasks_createTask cl pid (createTask_newTask a ttl pid)) (\<lambda>created.
                return (cl, pid, usedInboxDetection, created)))))))))"

definition createTask_response :: "ctx \<Rightarrow> args \<Rightarrow> int \<Rightarrow> bool \<Rightarrow> Task \<Rightarrow> response" where
  "createTask_response cx a pid usedInboxDetection completeTask =
     \<lparr>operation = ''create-task'', message_of = ''Task created successfully'',
      data = TaskPayload completeTask,
      metadata =
        [(''timestamp'', JStr (now cx)), (''projectId'', JNum pid),
         (''labelsAdded'', JBool (case labels a of None \<Rightarrow> False | Some l \<Rightarrow> length l > 0)),
         (''assigneesAdded'', JBool (case assignees a of None \<Rightarrow> False | Some l \<Rightarrow> length l > 0)),
         (''usedInboxDetection'', JBool usedInboxDetection)]\<rparr>"

text \<open>\<open>createTask\<close> from the creation state on: the secondary steps, the rollback, the final fetch.\<close>

definition createTask_afterCreation ::
    "ctx \<Rightarrow> client \<Rightarrow> args \<Rightarrow> int \<Rightarrow> bool \<Rightarrow> Task \<Rightarrow> response io" where
  "createTask_afterCreation cx cl a pid usedInboxDetection created log =
     (case applyLabelsAndAssignees cx cl a
             \<lparr>createdTask = created, labelsAdded = False, assigneesAdded = False\<rparr> log of
        (Inl updateError, creationState, log') \<Rightarrow> rollbackTaskCreation cl creationState updateError log'
      | (Inr u, creationState, log') \<Rightarrow>
          await (case task_id created of
                   None \<Rightarrow> return created
                 | Some tid \<Rightarrow> if tid = 0 then return created else tasks_getTask cl tid) (\<lambda>completeTask.
          return (createTask_response cx a pid usedInboxDetection completeTask)) log')"

definition createTask :: "ctx \<Rightarrow> args \<Rightarrow> response io" where
  "createTask cx a =
     try_catch
       (await (createTask_upToCreation cx a) (\<lambda>(cl, pid, usedInboxDetection, created).
        createTask_afterCreation cx cl a pid usedInboxDetection created))
       (\<lambda>e. throw (crudCatch cx ''create'' None e))"

section \<open>Task relations (tools/tasks-relations.ts)\<close>

text \<open>
  \<open>RELATION_KIND_MAP\<close> is an object literal, read by \<open>RELATION_KIND_MAP[args.relationKind]\<close>.
  Such a read finds the literal's own keys and, for any other name, what the object
  inherits from \<open>Object.prototype\<close>.
\<close>

definition RELATION_KIND_MAP_entries :: "(string \<times> string) list" where
  "RELATION_KIND_MAP_entries =
     [(''unknown'', ''unknown''), (''subtask'', ''subtask''), (''parenttask'', ''parenttask''),
      (''related'', ''related''), (''duplicateof'', ''duplicateof''), (''duplicates'', ''duplicates''),
      (''blocking'', ''blocking''), (''blocked'', ''blocked''), (''precedes'', ''precedes''),
      (''follows'', ''follows''), (''copiedfrom'', ''copiedfrom''), (''copiedto'', ''copiedto'')]"

definition Object_prototype_properties :: "string list" where
  "Object_prototype_properties =
     [''constructor'', ''__defineGetter__'', ''__defineSetter__'', ''hasOwnProperty'',
      ''__lookupGetter__'', ''__lookupSetter__'', ''isPrototypeOf'', ''propertyIsEnumerable'',
      ''toString'', ''valueOf'', ''__proto__'', ''toLocaleString'']"

definition RELATION_KIND_MAP :: "string \<Rightarrow> jsval option" where
  "RELATION_KIND_MAP k =
     (case map_of RELATION_KIND_MAP_entries k of
        Some v \<Rightarrow> Some (JStr v)
      | None \<Rightarrow> if k \<in> set Object_prototype_properties then Some (JBuiltin k) else None)"

text \<open>
  Modelled from the spec: \<open>wrapToolError\<close> of \<open>utils/error-handler\<close> is not among the
  sources. The specification (7): validation errors and already classified errors
  propagate unchanged; everything else is classified once and thrown again with context.
\<close>

definition wrapToolError :: "ctx \<Rightarrow> error \<Rightarrow> string \<Rightarrow> string \<Rightarrow> string \<Rightarrow> error" where
  "wrapToolError cx e tool opname ident =
     (if instanceof_MCPError e then e else wrapUnclassified cx e tool opname ident)"

definition show_opt_int :: "int option \<Rightarrow> string" where
  "show_opt_int n = (case n of None \<Rightarrow> ''undefined'' | Some v \<Rightarrow> show_int v)"

definition relate_idRequired :: error where
  \<open>relate_idRequired = MCPError VALIDATION_ERROR
     ''Task ID is required for relate operation. Please provide the "id" parameter with a valid task ID number. Example: { "subcommand": "relate", "id": 123, "otherTaskId": 456, "relationKind": "subtask" }''
     None\<close>

definition relate_otherRequired :: error where
  \<open>relate_otherRequired = MCPError VALIDATION_ERROR
     ''Other task ID is required for relate operation. Please provide the "otherTaskId" parameter with a valid task ID number. For subtasks: "id" is the parent task, "otherTaskId" is the subtask. Example: { "subcommand": "relate", "id": 123, "otherTaskId": 456, "relationKind": "subtask" }''
     None\<close>

definition relate_kindRequired :: error where
  \<open>relate_kindRequired = MCPError VALIDATION_ERROR
     ''Relation kind is required for relate operation. Please provide the "relationKind" parameter. For creating subtasks, use "subtask". Example: { "subcommand": "relate", "id": 123, "otherTaskId": 456, "relationKind": "subtask" }''
     None\<close>

definition invalidRelationKind :: "string \<Rightarrow> error" where
  "invalidRelationKind k = MCPError VALIDATION_ERROR (''Invalid relation kind: '' @ k) None"

definition relation_response :: "ctx \<Rightarrow> string \<Rightarrow> string \<Rightarrow> string \<Rightarrow> int \<Rightarrow> int \<Rightarrow> Task \<Rightarrow> response" where
  "relation_response cx opname verb k i other updatedTask =
     \<lparr>operation = opname,
      message_of = ''Successfully '' @ verb @ '' '' @ k @ '' relation between task '' @ show_int i
                   @ '' and task '' @ show_int other,
      data = TaskPayload updatedTask,
      metadata = [(''timestamp'', JStr (now cx)), (''affectedFields'', JArr [JStr ''related_tasks''])]\<rparr>"

definition relate :: "ctx \<Rightarrow> client \<Rightarrow> args \<Rightarrow> response io" where
  "relate cx cl a =
     try_catch
       (case id_arg a of
          None \<Rightarrow> throw relate_idRequired
        | Some i \<Rightarrow>
            if i = 0 then throw relate_idRequired
            else
              await (lift (validateId cx (Some i) ''Task ID'')) (\<lambda>_.
              (case otherTaskId a of
                 None \<Rightarrow> throw relate_otherRequired
               | Some other \<Rightarrow>
                   if other = 0 then throw relate_otherRequired
                   else
                     await (lift (validateId cx (Some other) ''Other task ID'')) (\<lambda>_.
                     (case relationKind a of
                        None \<Rightarrow> throw relate_kindRequired
                      | Some k \<Rightarrow>
                          if k = [] then throw relate_kindRequired
                          else
                            (case RELATION_KIND_MAP k of
                               None \<Rightarrow> throw (invalidRelationKind k)
                             | Some kind \<Rightarrow>
                                 await (tasks_createTaskRelation cl i i other kind) (\<lambda>_.
                                 await (tasks_getTask cl i) (\<lambda>updatedTask.
                                 return (relation_response cx ''relate'' ''created'' k i other updatedTask)))))))))
       (\<lambda>e. throw (wrapToolError cx e ''vikunja_tasks_relations'' ''create task relation''
                     (show_opt_int (id_arg a) @ ''-'' @ show_opt_int (otherTaskId a))))"

definition unrelate :: "ctx \<Rightarrow> client \<Rightarrow> args \<Rightarrow> response io" where
  "unrelate cx cl a =
     try_catch
       (case id_arg a of
          None \<Rightarrow> throw (MCPError VALIDATION_ERROR ''Task ID is required'' None)
        | Some i \<Rightarrow>
            if i = 0 then throw (MCPError VALIDATION_ERROR ''Task ID is required'' None)
            else
              await (lift (validateId cx (Some i) ''Task ID'')) (\<lambda>_.
              (case otherTaskId a of
                 None \<Rightarrow> throw (MCPError VALIDATION_ERROR ''Other task ID is required'' None)
               | Some other \<Rightarrow>
                   if other = 0 then throw (MCPError VALIDATION_ERROR ''Other task ID is required'' None)
                   else
                     await (lift (validateId cx (Some other) ''Other task ID'')) (\<lambda>_.
                     (case relationKind a of
                        None \<Rightarrow> throw (MCPError VALIDATION_ERROR ''Relation kind is required'' None)
                      | Some k \<Rightarrow>
                          if k = [] then throw (MCPError VALIDATION_ERROR ''Relation kind is required'' None)
                          else
                            (case RELATION_KIND_MAP k of
                               None \<Rightarrow> throw (invalidRelationKind k)
                             | Some kind \<Rightarrow>
                                 await (tasks_deleteTaskRelation cl i kind other) (\<lambda>_.
                                 await (tasks_getTask cl i) (\<lambda>updatedTask.
                                 return (relation_response cx ''unrelate'' ''removed'' k i other updatedTask)))))))))
       (\<lambda>e. throw (wrapToolError cx e ''vikunja_tasks_relations'' ''remove task relation''
                     (show_opt_int (id_arg a) @ ''-'' @ show_opt_int (otherTaskId a))))"

definition relations :: "ctx \<Rightarrow> client \<Rightarrow> args \<Rightarrow> response io" where
  "relations cx cl a =
     try_catch
       (case id_arg a of
          None \<Rightarrow> throw (MCPError VALIDATION_ERROR ''Task ID is required'' None)
        | Some i \<Rightarrow>
            if i = 0 then throw (MCPError VALIDATION_ERROR ''Task ID is required'' None)
            else
              await (lift (validateId cx (Some i) ''Task ID'')) (\<lambda>_.
              await (tasks_getTask cl i) (\<lambda>task.
              return \<lparr>operation = ''relations'',
                      message_of = ''Found '' @ show_nat (case related_tasks task of None \<Rightarrow> 0 | Some r \<Rightarrow> length r)
                                   @ '' relations for task '' @ show_int i,
                      data = TaskPayload task,
                      metadata = [(''timestamp'', JStr (now cx)),
                                  (''count'', JNum (int (case related_tasks task of None \<Rightarrow> 0 | Some r \<Rightarrow> length r)))]\<rparr>)))
       (\<lambda>e. throw (wrapToolError cx e ''vikunja_tasks_relations'' ''get task relations''
                     (show_opt_int (id_arg a))))"

definition handleRelationSubcommands :: "ctx \<Rightarrow> args \<Rightarrow> response io" where
  "handleRelationSubcommands cx a =
     await (lift (getClientFromContext cx)) (\<lambda>cl.
       if subcommand a = ''relate'' then relate cx cl a
       else if subcommand a = ''unrelate'' then unrelate cx cl a
       else if subcommand a = ''relations'' then relations cx cl a
       else throw (MCPError VALIDATION_ERROR ''Invalid relation subcommand'' None))"

section \<open>Listing tasks (tools/tasks/index.ts)\<close>

record FilteringResult =
  tasks :: "Task list"
  fr_metadata :: "(string \<times> jsval) list"

definition filteringMetadata :: "bool \<Rightarrow> bool \<Rightarrow> (string \<times> jsval) list" where
  "filteringMetadata used attempted =
     [(''serverSideFilteringUsed'', JBool used), (''serverSideFilteringAttempted'', JBool attempted)]"

definition tasks_getAllTasks :: "client \<Rightarrow> string option \<Rightarrow> Task list io" where
  "tasks_getAllTasks cl f = remote (tasks_reply cl) (GetAllTasks f)"

text \<open>
  Modelled from the spec: \<open>TaskFilteringOrchestrator.executeTaskFiltering\<close> of
  \<open>tools/tasks/filtering\<close> is not among the sources. The specification (4.5): when a filter
  expression is present, server-side evaluation is attempted first, unless the expression
  is known to be incompatible, in which case it is evaluated purely on the client; when the
  server rejects the expression, the unfiltered tasks are fetched and the expression is
  evaluated locally on each of them; any other remote failure propagates. The metadata
  records which of the three paths was taken. Saved filters are not modelled.
\<close>

definition executeTaskFiltering :: "ctx \<Rightarrow> args \<Rightarrow> FilteringResult io" where
  "executeTaskFiltering cx a =
     await (lift (getClientFromContext cx)) (\<lambda>cl.
       (case filter_expr a of
          None \<Rightarrow>
            await (tasks_getAllTasks cl None) (\<lambda>ts.
            return \<lparr>tasks = ts, fr_metadata = filteringMetadata False False\<rparr>)
        | Some f \<Rightarrow>
            if knownIncompatible cx f then
              await (tasks_getAllTasks cl None) (\<lambda>ts.
              return \<lparr>tasks = filter (evaluateFilter cx f) ts, fr_metadata = filteringMetadata False False\<rparr>)
            else
              try_catch
                (await (tasks_getAllTasks cl (Some f)) (\<lambda>ts.
                 return \<lparr>tasks = ts, fr_metadata = filteringMetadata True True\<rparr>))
                (\<lambda>e. if isFilterRejection cx e then
                       await (tasks_getAllTasks cl None) (\<lambda>ts.
                       return \<lparr>tasks = filter (evaluateFilter cx f) ts,
                               fr_metadata = filteringMetadata False True\<rparr>)
                     else throw e)))"

text \<open>Truthiness of a property read from an object, and the object spread \<open>{...a, ...b}\<close>.\<close>

fun truthy :: "jsval option \<Rightarrow> bool" where
  "truthy None = False"
| "truthy (Some (JBool b)) = b"
| "truthy (Some (JNum n)) = (n \<noteq> 0)"
| "truthy (Some (JStr s)) = (s \<noteq> [])"
| "truthy (Some v) = True"

definition spread :: "(string \<times> jsval) list \<Rightarrow> (string \<times> jsval) list \<Rightarrow> (string \<times> jsval) list" where
  "spread base extra = filter (\<lambda>kv. fst kv \<notin> set (map fst extra)) base @ extra"

definition filteringMessage :: "args \<Rightarrow> FilteringResult \<Rightarrow> string" where
  "filteringMessage a filteringResult =
     (if truthy_str (filter_expr a) then
        (if truthy (map_of (fr_metadata filteringResult) ''serverSideFilteringUsed'')
           then '' (filtered server-side)''
         else if truthy (map_of (fr_metadata filteringResult) ''serverSideFilteringAttempted'')
           then '' (filtered client-side - server-side fallback)''
         else '' (filtered client-side)'')
      else [])"

definition listTasks :: "ctx \<Rightarrow> args \<Rightarrow> response io" where
  "listTasks cx a =
     try_catch
       (await (executeTaskFiltering cx a) (\<lambda>filteringResult.
        return \<lparr>operation = ''list-tasks'',
                message_of = ''Found '' @ show_nat (length (tasks filteringResult)) @ '' tasks''
                             @ filteringMessage a filteringResult,
                data = TasksPayload (tasks filteringResult),
                metadata = spread [(''timestamp'', JStr (now cx)),
                                   (''count'', JNum (int (length (tasks filteringResult))))]
                             (fr_metadata filteringResult)\<rparr>))
       (\<lambda>e. if instanceof_MCPError e then throw e else throw (handleFetchError cx e ''list tasks''))"

section \<open>The tool handler (tools/tasks/index.ts)\<close>

definition subcommandsRequiringId :: "string list" where
  "subcommandsRequiringId = [''get'', ''update'', ''delete'', ''relate'', ''unrelate'', ''relations'']"

definition taskIdRequired :: "string \<Rightarrow> error" where
  \<open>taskIdRequired sub = MCPError VALIDATION_ERROR
     (''Task ID is required for '' @ [CHR 0x27] @ sub @ [CHR 0x27]
      @ '' operation. Please provide the 'id' parameter with a valid task ID number. Example: { "subcommand": "''
      @ sub @ ''", "id": 123 }'')
     None\<close>

definition validateTaskIdRequirement :: "args \<Rightarrow> error + unit" where
  "validateTaskIdRequirement a =
     (if subcommand a \<in> set subcommandsRequiringId \<and> \<not> truthy_num (id_arg a)
      then Inl (taskIdRequired (subcommand a)) else Inr ())"

definition handleAttach :: error where
  "handleAttach = MCPError NOT_IMPLEMENTED ''File attachments are not supported in the current MCP context'' None"

definition handledElsewhere :: "string list" where
  "handledElsewhere =
     [''assign'', ''unassign'', ''list-assignees'', ''comment'', ''bulk-update'', ''bulk-delete'',
      ''bulk-create'', ''add-reminder'', ''remove-reminder'', ''list-reminders'', ''apply-label'',
      ''remove-label'', ''list-labels'']"

text \<open>
  The \<open>switch\<close>: it either throws at once (\<open>attach\<close>, an unknown subcommand, a failing session
  storage) or returns the promise of a handler. The handler's promise is returned without
  \<open>await\<close>, so its failure is not seen by the \<open>catch\<close> clause around the switch.
\<close>

definition dispatch :: "ctx \<Rightarrow> args \<Rightarrow> error + response io" where
  "dispatch cx a =
     (let sub = subcommand a in
      if sub = ''list'' then
        (case getSessionStorage cx of Some e \<Rightarrow> Inl e | None \<Rightarrow> Inr (listTasks cx a))
      else if sub = ''create'' then Inr (createTask cx a)
      else if sub = ''get'' then Inr (getTask cx a)
      else if sub = ''update'' then Inr (updateTask cx a)
      else if sub = ''delete'' then Inr (deleteTask cx a)
      else if sub = ''attach'' then Inl handleAttach
      else if sub = ''relate'' \<or> sub = ''unrelate'' \<or> sub = ''relations'' then Inr (handleRelationSubcommands cx a)
      else if sub \<in> set handledElsewhere then Inr (otherHandlers cx sub a)
      else Inl (MCPError VALIDATION_ERROR (''Unknown subcommand: '' @ sub) None))"

definition tasksTool :: "ctx \<Rightarrow> args \<Rightarrow> response io" where
  "tasksTool cx a =
     await
       (try_catch
          (if \<not> isAuthenticated cx then throw (createAuthRequiredError cx ''access task management features'')
           else
             await (lift (case setGlobalClientFactory cx of None \<Rightarrow> Inr () | Some e \<Rightarrow> Inl e)) (\<lambda>_.
             await (lift (getClientFromContext cx)) (\<lambda>_.
             await (lift (validateTaskIdRequirement a)) (\<lambda>_.
             lift (dispatch cx a)))))
          (\<lambda>e. if instanceof_MCPError e then throw e
               else throw (MCPError INTERNAL_ERROR (''Task operation error: '' @ message e) None)))
       (\<lambda>handler. handler)"

section \<open>A concrete service and context for worked examples\<close>

definition demo_task :: Task where
  "demo_task =
     \<lparr>task_id = Some 123, task_title = Some ''Write report'', task_description = None,
      due_date = None, task_priority = Some 3, task_done = Some False, repeat_after = None,
      repeat_mode = None, project_id = Some 1, task_assignees = Some [5], related_tasks = None\<rparr>"

text \<open>A service on which every call succeeds and every task read is \<open>t\<close>.\<close>

definition steady_client :: "Task \<Rightarrow> client" where
  "steady_client t =
     \<lparr>task_reply = (\<lambda>log c. Inr t), unit_reply = (\<lambda>log c. Inr ()),
      projects_reply = (\<lambda>log c. Inr [\<lparr>proj_id = Some 1, proj_title = Some ''Inbox''\<rparr>]),
      project_reply = (\<lambda>log c. Inr \<lparr>proj_id = Some 1, proj_title = Some ''Inbox''\<rparr>),
      tasks_reply = (\<lambda>log c. Inr [t])\<rparr>"

text \<open>The same service, except that the calls in \<open>bad\<close> fail with the error \<open>e\<close>.\<close>

definition failing_on :: "call list \<Rightarrow> error \<Rightarrow> client \<Rightarrow> client" where
  "failing_on bad e cl =
     \<lparr>task_reply = (\<lambda>log c. if c \<in> set bad then Inl e else task_reply cl log c),
      unit_reply = (\<lambda>log c. if c \<in> set bad then Inl e else unit_reply cl log c),
      projects_reply = (\<lambda>log c. if c \<in> set bad then Inl e else projects_reply cl log c),
      project_reply = (\<lambda>log c. if c \<in> set bad then Inl e else project_reply cl log c),
      tasks_reply = (\<lambda>log c. if c \<in> set bad then Inl e else tasks_reply cl log c)\<rparr>"

definition demo_ctx :: "client \<Rightarrow> ctx" where
  "demo_ctx cl =
     \<lparr>getClientFromContext = Inr cl, isAuthenticated = True, setGlobalClientFactory = None,
      createAuthRequiredError = (\<lambda>what. MCPError AUTH_REQUIRED what None),
      now = ''2025-10-30T04:05:22.422Z'',
      isAuthenticationError = (\<lambda>e. str_includes (message e) ''401''),
      maxRetries = 3, retriesExhausted = (\<lambda>e. e),
      LABEL_CREATE = ''labels'', ASSIGNEE_CREATE = ''assignees'', LABEL_UPDATE = ''labels'',
      ASSIGNEE_UPDATE = ''assignees'', ASSIGNEE_REMOVE_PARTIAL = ''assignees partly removed'',
      handleFetchError = (\<lambda>e what. MCPError API_ERROR what None),
      handleStatusCodeError = (\<lambda>e what n fallback. MCPError API_ERROR fallback None),
      transformApiError = (\<lambda>e what. MCPError API_ERROR what None),
      wrapUnclassified = (\<lambda>e tool what ident. MCPError API_ERROR what None),
      validateId_message = (\<lambda>n fieldName. fieldName @ '' must be a positive integer''),
      knownIncompatible = (\<lambda>f. False),
      isFilterRejection = (\<lambda>e. str_includes (message e) ''400''),
      evaluateFilter = (\<lambda>f t. True),
      getSessionStorage = None,
      otherHandlers = (\<lambda>sub a log. (Inl (MCPError NOT_IMPLEMENTED sub None), log))\<rparr>"

definition no_args :: args where
  "no_args =
     \<lparr>subcommand = [], id_arg = None, title = None, description = None, projectId = None,
      dueDate = None, priority = None, done_arg = None, labels = None, assignees = None,
      repeatAfter = None, repeatMode = None, filter_expr = None, otherTaskId = None,
      relationKind = None\<rparr>"

text \<open>A due date that \<open>updateTask\<close> lets pass: absent, empty, or accepted by the validator.\<close>

definition dueDate_valid :: "args \<Rightarrow> bool" where
  "dueDate_valid a =
     (case dueDate a of None \<Rightarrow> True | Some d \<Rightarrow> d = [] \<or> validateDateString d ''dueDate'' = Inr ())"

text \<open>
  The calls \<open>updateTaskAssignees\<close> plans after its fetch: one bulk assignment when there
  is something to add, then one removal per user to remove. What a successful call does
  to the task's set of assignees on the remote service: a bulk assignment adds its users,
  a removal takes its user away, no other call changes the set.
\<close>

definition assignee_calls :: "int \<Rightarrow> int list \<Rightarrow> int list \<Rightarrow> call list" where
  "assignee_calls taskId adds removals =
     (if length adds > 0 then [BulkAssignUsersToTask taskId adds] else [])
     @ map (RemoveUserFromTask taskId) removals"

fun assignees_after :: "call \<Rightarrow> int set \<Rightarrow> int set" where
  "assignees_after (BulkAssignUsersToTask t us) S = S \<union> set us"
| "assignees_after (RemoveUserFromTask t u) S = S - {u}"
| "assignees_after c S = S"

definition state_after :: "call list \<Rightarrow> int set \<Rightarrow> int set" where
  "state_after cs S = foldl (\<lambda>S' c. assignees_after c S') S cs"

text \<open>
  What \<open>updateTask\<close> does from the update call's success on, written out once for the
  proofs: the assignees, the final fetch, the response.
\<close>

definition updateTask_continues :: "ctx \<Rightarrow> client \<Rightarrow> args \<Rightarrow> int \<Rightarrow> Task \<Rightarrow> response io" where
  "updateTask_continues cx cl a i t l2 =
     (case (case assignees a of None \<Rightarrow> return () | Some us \<Rightarrow> updateTaskAssignees cx cl i us) l2 of
        (Inl e, l3) \<Rightarrow> (Inl (crudCatch cx ''update'' (Some i) e), l3)
      | (Inr u, l3) \<Rightarrow>
          (case task_reply cl l3 (GetTask i) of
             Inl e \<Rightarrow> (Inl (crudCatch cx ''update'' (Some i) e), l3 @ [GetTask i])
           | Inr ct \<Rightarrow>
               (Inr (updateTask_response cx i
                      \<lparr>currentTask = t, previousState = previousState_of t,
                       affectedFields = affectedFields_of a t\<rparr> ct), l3 @ [GetTask i])))"

text \<open>A request to create a task with one label.\<close>

definition demo_create_args :: args where
  "demo_create_args = no_args\<lparr>title := Some ''Buy milk'', projectId := Some 1, labels := Some [4]\<rparr>"

text \<open>
  The relation kinds as the specification names them, from its words, for comparison with
  the keys of \<open>RELATION_KIND_MAP\<close>.
\<close>

definition spec_relation_kinds :: "string list" where
  "spec_relation_kinds =
     [''subtask'', ''parent'', ''related'', ''duplicate-of'', ''duplicates'', ''blocking'',
      ''blocked'', ''precedes'', ''follows'', ''copied-from'', ''copied-to'', ''unknown'']"

definition demo_relate_args :: "string \<Rightarrow> args" where
  "demo_relate_args k =
     no_args\<lparr>subcommand := ''relate'', id_arg := Some 123, otherTaskId := Some 456,
             relationKind := Some k\<rparr>"

text \<open>A listing request with a filter expression.\<close>

definition demo_list_args :: args where
  "demo_list_args = no_args\<lparr>subcommand := ''list'', filter_expr := Some ''priority >= 3''\<rparr>"

section \<open>Properties\<close>

subsection \<open>Evaluation and the effect combinators\<close>

lemmas date_defs = validateDateString_def isoWithMillisecondsRegex_def is_digit_def Date_isNaN_def
  iso_fields_def substring_def number_of_def digit_val_def

lemmas show_defs = show_int_def show_nat.simps digit_char_def

subsection \<open>The date validator\<close>

lemma validateDateString_examples:
  "validateDateString ''2025-10-30T04:05:22.422Z'' f = Inr ()"
  "\<exists>m. validateDateString ''2025-10-30T04:05:22Z'' f = Inl (MCPError VALIDATION_ERROR m None)"
  "\<exists>m. validateDateString ''2025-10-30'' f = Inl (MCPError VALIDATION_ERROR m None)"
  "\<exists>m. validateDateString ''2025-13-30T04:05:22.422Z'' f = Inl (MCPError VALIDATION_ERROR m None)"
  by (simp_all add: date_defs)

lemma validateDateString_fails_with_ValidationError:
  "validateDateString d f = Inl e \<Longrightarrow> \<exists>m. e = MCPError VALIDATION_ERROR m None"
  by (auto simp: validateDateString_def split: if_splits)

lemma validateDateString_accepts_real_dates:
  "regex_test isoWithMillisecondsRegex d \<Longrightarrow> real_calendar_datetime d \<Longrightarrow> validateDateString d f = Inr ()"
  by (auto simp: validateDateString_def Date_isNaN_def real_calendar_datetime_def Let_def
      days_in_month_def split: if_splits)

lemma validateDateString_accepts_shape:
  "validateDateString d f = Inr () \<Longrightarrow> regex_test isoWithMillisecondsRegex d"
  by (auto simp: validateDateString_def split: if_splits)

text \<open>
  C5. The date validator is meant to accept a string exactly when it has the shape
  YYYY-MM-DDTHH:mm:ss.sssZ and names a real calendar date and time. The four strings the
  specification lists behave as it says (\<open>validateDateString_examples\<close>), whatever is
  accepted has the shape, and every string of the shape that names a real date and time is
  accepted (\<open>validateDateString_accepts_real_dates\<close>). But the string 2025-02-30T04:05:22.422Z, the 30th of February,
  is accepted although it names no real calendar date: the only check after the shape is
  that the date parser does not return NaN, and the parser rolls the day over into March.
\<close>

theorem C5_validateDateString_accepts_Feb_30:
  "validateDateString ''2025-02-30T04:05:22.422Z'' ''dueDate'' = Inr ()
   \<and> regex_test isoWithMillisecondsRegex ''2025-02-30T04:05:22.422Z''
   \<and> \<not> real_calendar_datetime ''2025-02-30T04:05:22.422Z''"
  by (simp add: date_defs real_calendar_datetime_def days_in_month_def leap_year_def)

subsection \<open>The repeat policy\<close>

lemma round_double_exact:
  assumes "0 \<le> x" and "x \<le> 2 ^ 53"
  shows "round_double x = x"
proof (cases "x < 2 ^ 53")
  case True
  then have "excess_bits x = 0"
    by (simp add: excess_bits.simps)
  with assms(1) show ?thesis
    by (simp add: round_double_def round_double_mag_def)
next
  case False
  with assms(2) have x: "x = 2 ^ 53"
    by simp
  have "excess_bits (2 ^ 53) = Suc 0"
    by (simp add: excess_bits.simps)
  then show ?thesis
    unfolding x by (simp add: round_double_def round_double_mag_def)
qed

lemma pow53: "(2::int) ^ 53 = 9007199254740992"
  by simp

lemma js_times_exact:
  assumes "0 \<le> a * b" and "a * b \<le> 9007199254740992"
  shows "js_times a b = a * b"
  using assms by (simp only: js_times_def round_double_exact pow53)

lemma day_seconds_exact:
  assumes "0 \<le> n" and "n * 86400 \<le> 9007199254740992"
  shows "js_times (js_times (js_times n 24) 60) 60 = n * 86400"
proof -
  have 1: "js_times n 24 = n * 24"
    by (rule js_times_exact) (use assms in linarith)+
  have 2: "js_times (n * 24) 60 = n * 24 * 60"
    by (rule js_times_exact) (use assms in linarith)+
  have 3: "js_times (n * 24 * 60) 60 = n * 24 * 60 * 60"
    by (rule js_times_exact) (use assms in linarith)+
  show ?thesis
    unfolding 1 2 3 by linarith
qed

lemma week_seconds_exact:
  assumes "0 \<le> n" and "n * 604800 \<le> 9007199254740992"
  shows "js_times (js_times (js_times (js_times n 7) 24) 60) 60 = n * 604800"
proof -
  have 0: "js_times n 7 = n * 7"
    by (rule js_times_exact) (use assms in linarith)+
  have 1: "js_times (n * 7) 24 = n * 7 * 24"
    by (rule js_times_exact) (use assms in linarith)+
  have 2: "js_times (n * 7 * 24) 60 = n * 7 * 24 * 60"
    by (rule js_times_exact) (use assms in linarith)+
  have 3: "js_times (n * 7 * 24 * 60) 60 = n * 7 * 24 * 60 * 60"
    by (rule js_times_exact) (use assms in linarith)+
  show ?thesis
    unfolding 0 1 2 3 by linarith
qed

lemma year_seconds_exact:
  assumes "0 \<le> n" and "n * 31536000 \<le> 9007199254740992"
  shows "js_times (js_times (js_times (js_times n 365) 24) 60) 60 = n * 31536000"
proof -
  have 0: "js_times n 365 = n * 365"
    by (rule js_times_exact) (use assms in linarith)+
  have 1: "js_times (n * 365) 24 = n * 365 * 24"
    by (rule js_times_exact) (use assms in linarith)+
  have 2: "js_times (n * 365 * 24) 60 = n * 365 * 24 * 60"
    by (rule js_times_exact) (use assms in linarith)+
  have 3: "js_times (n * 365 * 24 * 60) 60 = n * 365 * 24 * 60 * 60"
    by (rule js_times_exact) (use assms in linarith)+
  show ?thesis
    unfolding 0 1 2 3 by linarith
qed

text \<open>
  C6 (as amended). Repeat-policy conversion maps 2 weeks to 1209600 seconds with mode flag
  0; it maps the month unit to mode flag 1 whatever the interval is, given or not; and for
  the units day, week and year it maps an integer interval n, from 0 up to the point where
  n times the unit's multiplier exceeds 2^53, to n times 86400, 604800 and 31536000, with
  mode flag 0. (Up to there every product of the code is exact.)
\<close>

theorem C6_convertRepeatConfiguration:
  "convertRepeatConfiguration (Some 2) (Some week) = \<lparr>repeat_after_c = Some 1209600, repeat_mode_c = Some 0\<rparr>
   \<and> 2 * 7 * 24 * 60 * 60 = (1209600 :: int)
   \<and> (\<forall>n. repeat_mode_c (convertRepeatConfiguration n (Some month)) = Some 1)
   \<and> (0 \<le> n \<and> n * 86400 \<le> 2 ^ 53 \<longrightarrow>
        convertRepeatConfiguration (Some n) (Some day)
          = \<lparr>repeat_after_c = Some (n * 86400), repeat_mode_c = Some 0\<rparr>)
   \<and> (0 \<le> n \<and> n * 604800 \<le> 2 ^ 53 \<longrightarrow>
        convertRepeatConfiguration (Some n) (Some week)
          = \<lparr>repeat_after_c = Some (n * 604800), repeat_mode_c = Some 0\<rparr>)
   \<and> (0 \<le> n \<and> n * 31536000 \<le> 2 ^ 53 \<longrightarrow>
        convertRepeatConfiguration (Some n) (Some year)
          = \<lparr>repeat_after_c = Some (n * 31536000), repeat_mode_c = Some 0\<rparr>)"
proof (intro conjI impI allI)
  have "js_times (js_times (js_times (js_times 2 7) 24) 60) 60 = 2 * 604800"
    by (rule week_seconds_exact) simp_all
  then show "convertRepeatConfiguration (Some 2) (Some week)
      = \<lparr>repeat_after_c = Some 1209600, repeat_mode_c = Some 0\<rparr>"
    by (simp add: convertRepeatConfiguration_def)
next
  show "2 * 7 * 24 * 60 * 60 = (1209600 :: int)"
    by simp
next
  fix n
  show "repeat_mode_c (convertRepeatConfiguration n (Some month)) = Some 1"
    by (simp add: convertRepeatConfiguration_def)
next
  assume h: "0 \<le> n \<and> n * 86400 \<le> 2 ^ 53"
  then have "0 \<le> n" and "n * 86400 \<le> 9007199254740992"
    unfolding pow53 by blast+
  then have "js_times (js_times (js_times n 24) 60) 60 = n * 86400"
    by (rule day_seconds_exact)
  then show "convertRepeatConfiguration (Some n) (Some day)
          = \<lparr>repeat_after_c = Some (n * 86400), repeat_mode_c = Some 0\<rparr>"
    by (simp add: convertRepeatConfiguration_def)
next
  assume h: "0 \<le> n \<and> n * 604800 \<le> 2 ^ 53"
  then have "0 \<le> n" and "n * 604800 \<le> 9007199254740992"
    unfolding pow53 by blast+
  then have "js_times (js_times (js_times (js_times n 7) 24) 60) 60 = n * 604800"
    by (rule week_seconds_exact)
  then show "convertRepeatConfiguration (Some n) (Some week)
          = \<lparr>repeat_after_c = Some (n * 604800), repeat_mode_c = Some 0\<rparr>"
    by (simp add: convertRepeatConfiguration_def)
next
  assume h: "0 \<le> n \<and> n * 31536000 \<le> 2 ^ 53"
  then have "0 \<le> n" and "n * 31536000 \<le> 9007199254740992"
    unfolding pow53 by blast+
  then have "js_times (js_times (js_times (js_times n 365) 24) 60) 60 = n * 31536000"
    by (rule year_seconds_exact)
  then show "convertRepeatConfiguration (Some n) (Some year)
          = \<lparr>repeat_after_c = Some (n * 31536000), repeat_mode_c = Some 0\<rparr>"
    by (simp add: convertRepeatConfiguration_def)
qed

theorem C6_convertRepeatConfiguration_witness:
  "(0::int) \<le> 3 \<and> (3::int) * 31536000 \<le> 2 ^ 53
   \<and> convertRepeatConfiguration (Some 3) (Some day) = \<lparr>repeat_after_c = Some 259200, repeat_mode_c = Some 0\<rparr>
   \<and> convertRepeatConfiguration (Some 3) (Some week) = \<lparr>repeat_after_c = Some 1814400, repeat_mode_c = Some 0\<rparr>
   \<and> convertRepeatConfiguration (Some 3) (Some year) = \<lparr>repeat_after_c = Some 94608000, repeat_mode_c = Some 0\<rparr>"
  using C6_convertRepeatConfiguration [of 3] by simp

text \<open>
  C6 as stated fails for large intervals: the products are doubles, and at the interval
  9007199254740991 days the result is not the interval times 86400.
\<close>

theorem C6_large_interval_counterexample:
  "convertRepeatConfiguration (Some 9007199254740991) (Some day)
     = \<lparr>repeat_after_c = Some 778222015609621577728, repeat_mode_c = Some 0\<rparr>
   \<and> (9007199254740991 :: int) * 86400 = 778222015609621622400"
  by (simp add: convertRepeatConfiguration_def js_times_def round_double_def round_double_mag_def
      excess_bits.simps)

subsection \<open>Strings and identifiers\<close>

lemmas io_defs = await_def try_catch_def throw_def return_def lift_def remote_def

lemma str_includes_prefix: "str_includes (s @ ys) s"
proof (cases "s @ ys")
  case Nil
  then show ?thesis by simp
next
  case (Cons c cs)
  have "prefix s (s @ ys)" by simp
  then show ?thesis using Cons by simp
qed

lemma str_includes_middle: "str_includes (xs @ s @ ys) s"
  by (induction xs) (simp_all add: str_includes_prefix)

lemma validateId_fails: "validateId cx n f = Inl e \<Longrightarrow> \<exists>m. e = MCPError VALIDATION_ERROR m None"
  by (auto simp: validateId_def split: option.splits if_splits)

lemma validateId_ok: "1 \<le> i \<Longrightarrow> validateId cx (Some i) f = Inr ()"
  by (simp add: validateId_def)

subsection \<open>The update workflow rejects labels\<close>

lemma useApplyLabel_directs: "str_includes (message (useApplyLabel i)) ''apply-label''"
proof -
  have "\<exists>xs ys. message (useApplyLabel i) = xs @ ''apply-label'' @ ys"
    unfolding useApplyLabel_def
    by (rule exI[of _ "''To add or remove labels from a task, use the '' @ [CHR 0x22]"]) simp
  then show ?thesis using str_includes_middle by metis
qed

text \<open>
  C3 (as amended). An update request that carries a \<open>labels\<close> field, whatever its value,
  fails with a ValidationError and issues no remote call: the log of calls is unchanged.
  When the identifier is present and at least 1 and the due date is absent, empty or
  valid, that error is the one that directs the caller to \<open>apply-label\<close>. (Otherwise the
  identifier or the due date is reported first, the checks coming in that order.)
\<close>

theorem C3_update_with_labels_is_rejected:
  assumes "labels a \<noteq> None"
  shows "(\<exists>m. updateTask cx a log = (Inl (MCPError VALIDATION_ERROR m None), log))
     \<and> (\<forall>i. id_arg a = Some i \<and> 1 \<le> i \<and> dueDate_valid a
            \<longrightarrow> updateTask cx a log = (Inl (useApplyLabel i), log))
     \<and> (\<forall>i. str_includes (message (useApplyLabel i)) ''apply-label'')"
proof (intro conjI allI impI)
  show "\<exists>m. updateTask cx a log = (Inl (MCPError VALIDATION_ERROR m None), log)"
  proof (cases "id_arg a")
    case None
    then show ?thesis
      by (simp add: updateTask_def io_defs updateTask_idRequired_def crudCatch_def)
  next
    case (Some i)
    show ?thesis
    proof (cases "i = 0")
      case True
      with Some show ?thesis
        by (simp add: updateTask_def io_defs updateTask_idRequired_def crudCatch_def)
    next
      case nz: False
      show ?thesis
      proof (cases "validateId cx (Some i) ''id''")
        case (Inl e)
        then obtain m where "e = MCPError VALIDATION_ERROR m None"
          using validateId_fails by blast
        with Some nz Inl show ?thesis
          by (simp add: updateTask_def io_defs crudCatch_def)
      next
        case (Inr u)
        show ?thesis
        proof (cases "dueDate a")
          case None
          with Some nz Inr assms show ?thesis
            by (simp add: updateTask_def io_defs crudCatch_def useApplyLabel_def)
        next
          case d: (Some d)
          show ?thesis
          proof (cases "d = []")
            case True
            with d Some nz Inr assms show ?thesis
              by (simp add: updateTask_def io_defs crudCatch_def useApplyLabel_def)
          next
            case dn: False
            show ?thesis
            proof (cases "validateDateString d ''dueDate''")
              case (Inl e)
              then obtain m where "e = MCPError VALIDATION_ERROR m None"
                using validateDateString_fails_with_ValidationError by blast
              with d dn Some nz Inr Inl show ?thesis
                by (simp add: updateTask_def io_defs crudCatch_def)
            next
              case r: (Inr v)
              with d dn Some nz Inr assms show ?thesis
                by (simp add: updateTask_def io_defs crudCatch_def useApplyLabel_def)
            qed
          qed
        qed
      qed
    qed
  qed
next
  fix i
  assume h: "id_arg a = Some i \<and> 1 \<le> i \<and> dueDate_valid a"
  then have v: "validateId cx (Some i) ''id'' = Inr ()"
    by (simp add: validateId_ok)
  from h have nz: "i \<noteq> 0"
    by auto
  from h v nz assms show "updateTask cx a log = (Inl (useApplyLabel i), log)"
    by (auto simp: updateTask_def io_defs crudCatch_def useApplyLabel_def dueDate_valid_def
        split: option.splits)
next
  fix i
  show "str_includes (message (useApplyLabel i)) ''apply-label''"
    by (rule useApplyLabel_directs)
qed

theorem C3_update_with_labels_witness:
  "labels (no_args\<lparr>id_arg := Some 123, labels := Some [1, 2, 3]\<rparr>) \<noteq> None
   \<and> updateTask (demo_ctx (steady_client demo_task))
        (no_args\<lparr>id_arg := Some 123, labels := Some [1, 2, 3]\<rparr>) []
       = (Inl (useApplyLabel 123), [])
   \<and> str_includes (message (useApplyLabel 123)) ''apply-label''"
  using C3_update_with_labels_is_rejected
    [of "no_args\<lparr>id_arg := Some 123, labels := Some [1, 2, 3]\<rparr>"
        "demo_ctx (steady_client demo_task)" "[]"]
  by (simp add: no_args_def dueDate_valid_def)

text \<open>
  C3 as stated fails: a request with a \<open>labels\<close> field and no identifier is answered with
  the error that asks for the identifier, which says nothing of \<open>apply-label\<close>.
\<close>

theorem C3_labels_without_id_counterexample:
  "labels (no_args\<lparr>labels := Some [1, 2, 3]\<rparr>) \<noteq> None
   \<and> updateTask (demo_ctx (steady_client demo_task)) (no_args\<lparr>labels := Some [1, 2, 3]\<rparr>) []
       = (Inl updateTask_idRequired, [])
   \<and> \<not> str_includes (message updateTask_idRequired) ''apply-label''"
  by (simp add: no_args_def updateTask_def io_defs crudCatch_def updateTask_idRequired_def)

subsection \<open>The identifier requirement\<close>

lemma taskIdRequired_prefix: "prefix ''Task ID is required'' (message (taskIdRequired sub))"
  by (simp add: taskIdRequired_def)

text \<open>
  C10. For each of the subcommands get, update, delete, relate, unrelate and relations, an
  argument record whose id is 0 is rejected with the "Task ID is required" ValidationError,
  exactly as a record with no id is: by \<open>validateTaskIdRequirement\<close>; by the tool handler,
  which runs that check before it dispatches (given an authenticated session and an
  available client, which the handler checks first); and by the services themselves when
  called directly. No call reaches the remote service: the log is unchanged.
\<close>

theorem C10_zero_id_is_a_missing_id:
  "(sub \<in> set subcommandsRequiringId \<longrightarrow>
      validateTaskIdRequirement (a\<lparr>subcommand := sub, id_arg := Some 0\<rparr>) = Inl (taskIdRequired sub)
    \<and> validateTaskIdRequirement (a\<lparr>subcommand := sub, id_arg := Some 0\<rparr>)
        = validateTaskIdRequirement (a\<lparr>subcommand := sub, id_arg := None\<rparr>)
    \<and> code_of (taskIdRequired sub) = Some VALIDATION_ERROR
    \<and> prefix ''Task ID is required'' (message (taskIdRequired sub)))
   \<and> (sub \<in> set subcommandsRequiringId \<and> isAuthenticated cx \<and> setGlobalClientFactory cx = None
        \<and> getClientFromContext cx = Inr cl \<longrightarrow>
      tasksTool cx (a\<lparr>subcommand := sub, id_arg := Some 0\<rparr>) log = (Inl (taskIdRequired sub), log))
   \<and> getTask cx (a\<lparr>id_arg := Some 0\<rparr>) log = (Inl getTask_idRequired, log)
   \<and> updateTask cx (a\<lparr>id_arg := Some 0\<rparr>) log = (Inl updateTask_idRequired, log)
   \<and> deleteTask cx (a\<lparr>id_arg := Some 0\<rparr>) log = (Inl deleteTask_idRequired, log)
   \<and> (getClientFromContext cx = Inr cl \<longrightarrow>
        handleRelationSubcommands cx (a\<lparr>subcommand := ''relate'', id_arg := Some 0\<rparr>) log = (Inl relate_idRequired, log)
      \<and> handleRelationSubcommands cx (a\<lparr>subcommand := ''unrelate'', id_arg := Some 0\<rparr>) log
          = (Inl (MCPError VALIDATION_ERROR ''Task ID is required'' None), log)
      \<and> handleRelationSubcommands cx (a\<lparr>subcommand := ''relations'', id_arg := Some 0\<rparr>) log
          = (Inl (MCPError VALIDATION_ERROR ''Task ID is required'' None), log))
   \<and> prefix ''Task ID is required'' (message getTask_idRequired)
   \<and> prefix ''Task ID is required'' (message updateTask_idRequired)
   \<and> prefix ''Task ID is required'' (message deleteTask_idRequired)
   \<and> prefix ''Task ID is required'' (message relate_idRequired)"
proof (intro conjI impI)
  assume "sub \<in> set subcommandsRequiringId"
  then show "validateTaskIdRequirement (a\<lparr>subcommand := sub, id_arg := Some 0\<rparr>) = Inl (taskIdRequired sub)"
    by (simp add: validateTaskIdRequirement_def)
next
  show "validateTaskIdRequirement (a\<lparr>subcommand := sub, id_arg := Some 0\<rparr>)
        = validateTaskIdRequirement (a\<lparr>subcommand := sub, id_arg := None\<rparr>)"
    by (simp add: validateTaskIdRequirement_def)
next
  show "code_of (taskIdRequired sub) = Some VALIDATION_ERROR"
    by (simp add: taskIdRequired_def)
next
  show "prefix ''Task ID is required'' (message (taskIdRequired sub))"
    by (rule taskIdRequired_prefix)
next
  assume "sub \<in> set subcommandsRequiringId \<and> isAuthenticated cx \<and> setGlobalClientFactory cx = None
        \<and> getClientFromContext cx = Inr cl"
  then show "tasksTool cx (a\<lparr>subcommand := sub, id_arg := Some 0\<rparr>) log = (Inl (taskIdRequired sub), log)"
    by (simp add: tasksTool_def io_defs validateTaskIdRequirement_def taskIdRequired_def)
next
  show "getTask cx (a\<lparr>id_arg := Some 0\<rparr>) log = (Inl getTask_idRequired, log)"
    by (simp add: getTask_def io_defs getTask_idRequired_def crudCatch_def)
next
  show "updateTask cx (a\<lparr>id_arg := Some 0\<rparr>) log = (Inl updateTask_idRequired, log)"
    by (simp add: updateTask_def io_defs updateTask_idRequired_def crudCatch_def)
next
  show "deleteTask cx (a\<lparr>id_arg := Some 0\<rparr>) log = (Inl deleteTask_idRequired, log)"
    by (simp add: deleteTask_def io_defs deleteTask_idRequired_def crudCatch_def)
next
  assume "getClientFromContext cx = Inr cl"
  then show "handleRelationSubcommands cx (a\<lparr>subcommand := ''relate'', id_arg := Some 0\<rparr>) log = (Inl relate_idRequired, log)"
    by (simp add: handleRelationSubcommands_def relate_def io_defs relate_idRequired_def wrapToolError_def)
next
  assume "getClientFromContext cx = Inr cl"
  then show "handleRelationSubcommands cx (a\<lparr>subcommand := ''unrelate'', id_arg := Some 0\<rparr>) log
          = (Inl (MCPError VALIDATION_ERROR ''Task ID is required'' None), log)"
    by (simp add: handleRelationSubcommands_def unrelate_def io_defs wrapToolError_def)
next
  assume "getClientFromContext cx = Inr cl"
  then show "handleRelationSubcommands cx (a\<lparr>subcommand := ''relations'', id_arg := Some 0\<rparr>) log
          = (Inl (MCPError VALIDATION_ERROR ''Task ID is required'' None), log)"
    by (simp add: handleRelationSubcommands_def relations_def io_defs wrapToolError_def)
qed (simp_all add: getTask_idRequired_def updateTask_idRequired_def deleteTask_idRequired_def relate_idRequired_def)


theorem C10_zero_id_witness:
  "validateTaskIdRequirement (no_args\<lparr>subcommand := ''update'', id_arg := Some 0\<rparr>)
     = Inl (taskIdRequired ''update'')
   \<and> tasksTool (demo_ctx (steady_client demo_task)) (no_args\<lparr>subcommand := ''update'', id_arg := Some 0\<rparr>) []
     = (Inl (taskIdRequired ''update''), [])
   \<and> handleRelationSubcommands (demo_ctx (steady_client demo_task))
        (no_args\<lparr>subcommand := ''relate'', id_arg := Some 0\<rparr>) []
     = (Inl relate_idRequired, [])"
  using C10_zero_id_is_a_missing_id
    [of "''update''" no_args "demo_ctx (steady_client demo_task)" "steady_client demo_task" "[]"]
  by (simp add: subcommandsRequiringId_def demo_ctx_def)

subsection \<open>The delete workflow\<close>

text \<open>
  C8. In the delete workflow, for a valid identifier (and an available client), the calls
  issued are always the fetch and then the delete, whatever the fetch answered. When the
  delete succeeds the result is a success whose metadata carries the identifier, and a
  title only if the fetch succeeded and returned one. When the fetch fails, its error
  appears nowhere in the result: the result is the success keyed by the identifier, or the
  classified error of the delete call.
\<close>

theorem C8_delete_proceeds_when_fetch_fails:
  assumes "id_arg a = Some i" and "1 \<le> i" and "getClientFromContext cx = Inr cl"
  shows "snd (deleteTask cx a log) = log @ [GetTask i, DeleteTask i]
    \<and> (unit_reply cl (log @ [GetTask i]) (DeleteTask i) = Inr () \<longrightarrow>
         (\<exists>r. fst (deleteTask cx a log) = Inr r
            \<and> operation r = ''delete-task''
            \<and> map_of (metadata r) ''taskId'' = Some (JNum i)
            \<and> (map_of (metadata r) ''taskTitle'' \<noteq> None \<longrightarrow>
                 (\<exists>t ttl. task_reply cl log (GetTask i) = Inr t \<and> task_title t = Some ttl
                    \<and> map_of (metadata r) ''taskTitle'' = Some (JStr ttl)))))
    \<and> (\<forall>e. task_reply cl log (GetTask i) = Inl e \<longrightarrow>
         fst (deleteTask cx a log) =
           (case unit_reply cl (log @ [GetTask i]) (DeleteTask i) of
              Inr u \<Rightarrow> Inr \<lparr>operation = ''delete-task'',
                            message_of = ''Task '' @ show_int i @ '' deleted successfully'',
                            data = DeletedTaskId i,
                            metadata = [(''timestamp'', JStr (now cx)), (''taskId'', JNum i)]\<rparr>
            | Inl e' \<Rightarrow> Inl (crudCatch cx ''delete'' (Some i) e')))"
proof -
  from assms have nz: "i \<noteq> 0" and v: "validateId cx (Some i) ''id'' = Inr ()"
    by (simp_all add: validateId_ok)
  have run: "deleteTask cx a log =
      (case unit_reply cl (log @ [GetTask i]) (DeleteTask i) of
         Inr u \<Rightarrow> Inr (deleteTask_response cx i
                   (case task_reply cl log (GetTask i) of
                      Inr t \<Rightarrow> \<lparr>taskToDelete = Some t, retrievalSuccess = True\<rparr>
                    | Inl e \<Rightarrow> \<lparr>taskToDelete = None, retrievalSuccess = False\<rparr>))
       | Inl e' \<Rightarrow> Inl (crudCatch cx ''delete'' (Some i) e'),
       log @ [GetTask i, DeleteTask i])"
    using assms nz v
    by (simp add: deleteTask_def gatherDeletionContext_def tasks_getTask_def tasks_deleteTask_def
        io_defs split: sum.splits)
  show ?thesis
    unfolding run
    by (auto simp: deleteTask_response_def split: sum.splits option.splits dest: sym)
qed

theorem C8_delete_witness:
  "id_arg (no_args\<lparr>id_arg := Some 123\<rparr>) = Some 123 \<and> (1::int) \<le> 123
   \<and> snd (deleteTask (demo_ctx (failing_on [GetTask 123] (Error ''404 Not Found'') (steady_client demo_task)))
         (no_args\<lparr>id_arg := Some 123\<rparr>) []) = [GetTask 123, DeleteTask 123]
   \<and> fst (deleteTask (demo_ctx (failing_on [GetTask 123] (Error ''404 Not Found'') (steady_client demo_task)))
         (no_args\<lparr>id_arg := Some 123\<rparr>) [])
       = Inr \<lparr>operation = ''delete-task'', message_of = ''Task 123 deleted successfully'',
              data = DeletedTaskId 123,
              metadata = [(''timestamp'', JStr ''2025-10-30T04:05:22.422Z''), (''taskId'', JNum 123)]\<rparr>"
  using C8_delete_proceeds_when_fetch_fails [of "no_args\<lparr>id_arg := Some 123\<rparr>" 123
      "demo_ctx (failing_on [GetTask 123] (Error ''404 Not Found'') (steady_client demo_task))"
      "failing_on [GetTask 123] (Error ''404 Not Found'') (steady_client demo_task)" "[]"]
  by (simp add: no_args_def demo_ctx_def failing_on_def steady_client_def show_defs)

subsection \<open>The assignee diff\<close>

lemma removeUsers_log:
  "\<exists>k. snd (removeUsers cx cl t us log) = log @ take k (map (RemoveUserFromTask t) us)"
proof (induction us arbitrary: log)
  case Nil
  then show ?case by simp
next
  case (Cons u us)
  show ?case
  proof (cases "unit_reply cl log (RemoveUserFromTask t u)")
    case (Inl e)
    then have "snd (removeUsers cx cl t (u # us) log) = log @ take 1 (map (RemoveUserFromTask t) (u # us))"
      by (simp add: tasks_removeUserFromTask_def remote_def)
    then show ?thesis by blast
  next
    case (Inr v)
    obtain k where "snd (removeUsers cx cl t us (log @ [RemoveUserFromTask t u]))
        = (log @ [RemoveUserFromTask t u]) @ take k (map (RemoveUserFromTask t) us)"
      using Cons.IH by blast
    with Inr have "snd (removeUsers cx cl t (u # us) log) = log @ take (Suc k) (map (RemoveUserFromTask t) (u # us))"
      by (simp add: tasks_removeUserFromTask_def remote_def)
    then show ?thesis by blast
  qed
qed

lemma updateTaskAssignees_log:
  assumes "task_reply cl log (GetTask t) = Inr tk"
  shows "\<exists>k. snd (updateTaskAssignees cx cl t new log)
           = log @ take k (GetTask t # assignee_calls t (toAdd new (currentAssigneeIds_of tk))
                                          (toRemove new (currentAssigneeIds_of tk)))"
proof -
  let ?add = "toAdd new (currentAssigneeIds_of tk)"
  let ?rem = "toRemove new (currentAssigneeIds_of tk)"
  have catch: "\<And>r l. snd (case (r, l) of (Inl e, log') \<Rightarrow>
         (if isAuthenticationError cx e
          then throw (MCPError API_ERROR (ASSIGNEE_UPDATE cx @ '' (Retried '' @ show_nat (maxRetries cx) @ '' times)'') None)
          else throw e) log' | (Inr x, log') \<Rightarrow> (Inr x, log')) = l"
    by (simp add: throw_def split: sum.splits)
  show ?thesis
  proof (cases "length ?add > 0")
    case False
    obtain k where k: "snd (removeUsers cx cl t ?rem (log @ [GetTask t]))
        = (log @ [GetTask t]) @ take k (map (RemoveUserFromTask t) ?rem)"
      using removeUsers_log by blast
    have "snd (updateTaskAssignees cx cl t new log) = snd (removeUsers cx cl t ?rem (log @ [GetTask t]))"
      using assms False
      by (simp add: updateTaskAssignees_def tasks_getTask_def io_defs split: prod.splits sum.splits)
    with k False have "snd (updateTaskAssignees cx cl t new log)
        = log @ take (Suc k) (GetTask t # assignee_calls t ?add ?rem)"
      by (simp add: assignee_calls_def)
    then show ?thesis by blast
  next
    case True
    show ?thesis
    proof (cases "unit_reply cl (log @ [GetTask t]) (BulkAssignUsersToTask t ?add)")
      case (Inl e)
      with assms True have "snd (updateTaskAssignees cx cl t new log)
          = log @ take 2 (GetTask t # assignee_calls t ?add ?rem)"
        by (simp add: updateTaskAssignees_def tasks_getTask_def tasks_bulkAssignUsersToTask_def io_defs
            assignee_calls_def)
      then show ?thesis by blast
    next
      case (Inr v)
      obtain k where k: "snd (removeUsers cx cl t ?rem (log @ [GetTask t, BulkAssignUsersToTask t ?add]))
          = (log @ [GetTask t, BulkAssignUsersToTask t ?add]) @ take k (map (RemoveUserFromTask t) ?rem)"
        using removeUsers_log by blast
      have "snd (updateTaskAssignees cx cl t new log)
          = snd (removeUsers cx cl t ?rem (log @ [GetTask t, BulkAssignUsersToTask t ?add]))"
        using assms True Inr
        by (simp add: updateTaskAssignees_def tasks_getTask_def tasks_bulkAssignUsersToTask_def io_defs
            split: prod.splits sum.splits)
      with k True have "snd (updateTaskAssignees cx cl t new log)
          = log @ take (Suc (Suc k)) (GetTask t # assignee_calls t ?add ?rem)"
        by (simp add: assignee_calls_def)
      then show ?thesis by blast
    qed
  qed
qed

lemma state_after_removals: "state_after (map (RemoveUserFromTask t) rs) S = S - set rs"
  unfolding state_after_def
  by (induction rs arbitrary: S) auto

lemma state_after_contains_desired:
  "set new \<subseteq> state_after (take k (assignee_calls t (toAdd new cur) (toRemove new cur))) (set cur)
   \<or> state_after (take k (assignee_calls t (toAdd new cur) (toRemove new cur))) (set cur) = set cur"
proof (cases "length (toAdd new cur) > 0")
  case False
  then have "state_after (take k (assignee_calls t (toAdd new cur) (toRemove new cur))) (set cur)
      = set cur - set (take k (toRemove new cur))"
    by (simp add: assignee_calls_def take_map state_after_removals)
  moreover have "set (take k (toRemove new cur)) \<subseteq> set (toRemove new cur)"
    by (rule set_take_subset)
  moreover from False have "set new \<subseteq> set cur"
    by (auto simp: toAdd_def filter_empty_conv)
  ultimately show ?thesis
    by (auto simp: toRemove_def)
next
  case True
  show ?thesis
  proof (cases k)
    case 0
    then show ?thesis by (simp add: state_after_def)
  next
    case (Suc j)
    with True have "state_after (take k (assignee_calls t (toAdd new cur) (toRemove new cur))) (set cur)
        = (set cur \<union> set (toAdd new cur)) - set (take j (toRemove new cur))"
      using state_after_removals [of t "take j (toRemove new cur)" "set cur \<union> set (toAdd new cur)"]
      by (simp add: assignee_calls_def take_map state_after_def)
    moreover have "set (take j (toRemove new cur)) \<subseteq> set (toRemove new cur)"
      by (rule set_take_subset)
    ultimately show ?thesis
      by (auto simp: toRemove_def toAdd_def)
  qed
qed

lemma state_after_all: "state_after (assignee_calls t (toAdd new cur) (toRemove new cur)) (set cur) = set new"
proof -
  have "state_after (assignee_calls t (toAdd new cur) (toRemove new cur)) (set cur)
      = (set cur \<union> set (toAdd new cur)) - set (toRemove new cur)"
    using state_after_removals [of t "toRemove new cur" "set cur \<union> set (toAdd new cur)"]
      state_after_removals [of t "toRemove new cur" "set cur"]
    by (auto simp: assignee_calls_def state_after_def)
  then show ?thesis by (auto simp: toAdd_def toRemove_def)
qed

text \<open>
  C1. For all lists of current and desired assignee identifiers, the diff that
  \<open>updateTaskAssignees\<close> computes satisfies, as sets, toAdd = desired - current and
  toRemove = current - desired; the two are disjoint and desired = (current + toAdd) -
  toRemove. The calls the workflow issues are a prefix of: the fetch, the bulk assignment
  (when there is something to add), then the removals one by one; so additions come before
  removals, and a failure only cuts the sequence short. When current and desired are both
  non-empty, the assignee set after any number of these calls (at the start, after the
  additions, after each removal) is non-empty, and after all of them it is the desired set.
\<close>

theorem C1_assignee_diff:
  "set (toAdd new cur) = set new - set cur
   \<and> set (toRemove new cur) = set cur - set new
   \<and> set (toAdd new cur) \<inter> set (toRemove new cur) = {}
   \<and> set new = (set cur \<union> set (toAdd new cur)) - set (toRemove new cur)
   \<and> (task_reply cl log (GetTask t) = Inr tk \<and> currentAssigneeIds_of tk = cur \<longrightarrow>
        (\<exists>k. snd (updateTaskAssignees cx cl t new log)
              = log @ take k (GetTask t # assignee_calls t (toAdd new cur) (toRemove new cur))))
   \<and> (cur \<noteq> [] \<and> new \<noteq> [] \<longrightarrow>
        (\<forall>k. state_after (take k (assignee_calls t (toAdd new cur) (toRemove new cur))) (set cur) \<noteq> {}))
   \<and> state_after (assignee_calls t (toAdd new cur) (toRemove new cur)) (set cur) = set new"
proof (intro conjI impI allI)
  show "set (toAdd new cur) = set new - set cur" by (auto simp: toAdd_def)
  show "set (toRemove new cur) = set cur - set new" by (auto simp: toRemove_def)
  show "set (toAdd new cur) \<inter> set (toRemove new cur) = {}" by (auto simp: toAdd_def toRemove_def)
  show "set new = (set cur \<union> set (toAdd new cur)) - set (toRemove new cur)"
    by (auto simp: toAdd_def toRemove_def)
  show "state_after (assignee_calls t (toAdd new cur) (toRemove new cur)) (set cur) = set new"
    by (rule state_after_all)
next
  assume "task_reply cl log (GetTask t) = Inr tk \<and> currentAssigneeIds_of tk = cur"
  then show "\<exists>k. snd (updateTaskAssignees cx cl t new log)
              = log @ take k (GetTask t # assignee_calls t (toAdd new cur) (toRemove new cur))"
    using updateTaskAssignees_log by blast
next
  fix k
  assume ne: "cur \<noteq> [] \<and> new \<noteq> []"
  then have "set cur \<noteq> {}" and "set new \<noteq> {}" by simp_all
  then show "state_after (take k (assignee_calls t (toAdd new cur) (toRemove new cur))) (set cur) \<noteq> {}"
    using state_after_contains_desired [of new k t cur] by auto
qed


theorem C1_assignee_diff_witness:
  "task_reply (steady_client (demo_task\<lparr>task_assignees := Some [1, 2]\<rparr>)) [] (GetTask 7)
     = Inr (demo_task\<lparr>task_assignees := Some [1, 2]\<rparr>)
   \<and> currentAssigneeIds_of (demo_task\<lparr>task_assignees := Some [1, 2]\<rparr>) = [1, 2]
   \<and> toAdd [2, 3] [1, 2] = [3] \<and> toRemove [2, 3] [1, 2] = [1]
   \<and> snd (updateTaskAssignees (demo_ctx (steady_client (demo_task\<lparr>task_assignees := Some [1, 2]\<rparr>)))
             (steady_client (demo_task\<lparr>task_assignees := Some [1, 2]\<rparr>)) 7 [2, 3] [])
       = [GetTask 7, BulkAssignUsersToTask 7 [3], RemoveUserFromTask 7 1]
   \<and> state_after (assignee_calls 7 (toAdd [2, 3] [1, 2]) (toRemove [2, 3] [1, 2])) (set [1, 2]) = set [2, 3]"
proof -
  let ?tk = "demo_task\<lparr>task_assignees := Some [1, 2]\<rparr>"
  have a: "task_reply (steady_client ?tk) [] (GetTask 7) = Inr ?tk"
    by (simp add: steady_client_def)
  have b: "currentAssigneeIds_of ?tk = [1, 2]"
    by (simp add: currentAssigneeIds_of_def)
  have c: "toAdd [2, 3] [1, 2] = [3]" "toRemove [2, 3] [1, 2] = [1]"
    by (simp_all add: toAdd_def toRemove_def)
  have d: "snd (updateTaskAssignees (demo_ctx (steady_client ?tk)) (steady_client ?tk) 7 [2, 3] [])
       = [GetTask 7, BulkAssignUsersToTask 7 [3], RemoveUserFromTask 7 1]"
    by (simp add: updateTaskAssignees_def tasks_getTask_def tasks_bulkAssignUsersToTask_def
        tasks_removeUserFromTask_def io_defs steady_client_def b c)
  have e: "state_after (assignee_calls 7 (toAdd [2, 3] [1, 2]) (toRemove [2, 3] [1, 2])) (set [1, 2]) = set [2, 3]"
    using C1_assignee_diff [of "[2, 3]" "[1, 2]" "steady_client ?tk" "[]" 7 ?tk "demo_ctx (steady_client ?tk)"]
    by blast
  from a b c d e show ?thesis by blast
qed

subsection \<open>The update workflow's affected fields\<close>

lemma updateTaskAssignees_extends:
  "\<exists>rest. snd (updateTaskAssignees cx cl t new log) = log @ rest"
proof (cases "task_reply cl log (GetTask t)")
  case (Inl e)
  then have "snd (updateTaskAssignees cx cl t new log) = log @ [GetTask t]"
    by (simp add: updateTaskAssignees_def tasks_getTask_def io_defs)
  then show ?thesis by blast
next
  case (Inr tk)
  then show ?thesis using updateTaskAssignees_log by blast
qed

lemma mem_pushed_if: "f \<in> set (pushed_if b n) \<longleftrightarrow> (f = n \<and> b)"
  by (simp add: pushed_if_def)

lemma affectedFields_of_mem:
  "f \<in> set (affectedFields_of a t) \<longleftrightarrow>
     (f = ''title'' \<and> title a \<noteq> None \<and> title a \<noteq> task_title t)
   \<or> (f = ''description'' \<and> description a \<noteq> None \<and> description a \<noteq> task_description t)
   \<or> (f = ''dueDate'' \<and> dueDate a \<noteq> None \<and> dueDate a \<noteq> due_date t)
   \<or> (f = ''priority'' \<and> priority a \<noteq> None \<and> priority a \<noteq> task_priority t)
   \<or> (f = ''done'' \<and> done_arg a \<noteq> None \<and> done_arg a \<noteq> task_done t)
   \<or> (f = ''repeatAfter'' \<and> repeatAfter a \<noteq> None \<and> repeatAfter a \<noteq> repeat_after t)
   \<or> (f = ''repeatMode'' \<and> repeatMode a \<noteq> None
        \<and> map_option (\<lambda>m. JStr (repeatMode_text m)) (repeatMode a) \<noteq> repeat_mode t)
   \<or> (f = ''labels'' \<and> labels a \<noteq> None)
   \<or> (f = ''assignees'' \<and> assignees a \<noteq> None)"
  by (simp only: affectedFields_of_def set_append Un_iff mem_pushed_if)

lemma updateTask_run:
  assumes "id_arg a = Some i" and "1 \<le> i" and "labels a = None" and "dueDate_valid a"
    and "getClientFromContext cx = Inr cl" and "task_reply cl log (GetTask i) = Inr t"
  shows "updateTask cx a log =
     (case unit_reply cl (log @ [GetTask i]) (UpdateTask i (buildUpdateData t a)) of
        Inl e \<Rightarrow> (Inl (crudCatch cx ''update'' (Some i) e),
                  log @ [GetTask i, UpdateTask i (buildUpdateData t a)])
      | Inr u \<Rightarrow> updateTask_continues cx cl a i t (log @ [GetTask i, UpdateTask i (buildUpdateData t a)]))"
proof -
  from assms have nz: "i \<noteq> 0" and v: "validateId cx (Some i) ''id'' = Inr ()"
    by (simp_all add: validateId_ok)
  from assms(4) have d: "(case dueDate a of None \<Rightarrow> return ()
        | Some d \<Rightarrow> if d = [] then return () else lift (validateDateString d ''dueDate'')) = return ()"
    by (auto simp: dueDate_valid_def lift_def return_def split: option.splits)
  show ?thesis
    using assms(1,3,5,6) nz v
    by (simp add: updateTask_def d analyzeUpdateState_def tasks_getTask_def tasks_updateTask_def
        updateTask_continues_def io_defs split: sum.splits prod.splits)
qed


lemma updateTask_continues_log:
  "\<exists>rest. snd (updateTask_continues cx cl a i t l2) = l2 @ rest"
proof (cases "assignees a")
  case None
  then show ?thesis
    by (simp add: updateTask_continues_def return_def split: sum.splits)
next
  case (Some us)
  obtain rest where r: "snd (updateTaskAssignees cx cl i us l2) = l2 @ rest"
    using updateTaskAssignees_extends by blast
  obtain res l3 where p: "updateTaskAssignees cx cl i us l2 = (res, l3)"
    by (cases "updateTaskAssignees cx cl i us l2") blast
  with r have l3: "l3 = l2 @ rest" by simp
  show ?thesis
    using Some p l3
    by (simp add: updateTask_continues_def split: sum.splits)
qed

lemma updateTask_continues_metadata:
  "fst (updateTask_continues cx cl a i t l2) = Inr r \<Longrightarrow>
     map_of (metadata r) ''affectedFields'' = Some (JArr (map JStr (affectedFields_of a t)))"
  by (auto simp: updateTask_continues_def updateTask_response_def split: prod.splits sum.splits)

lemma drop_cases:
  assumes "f \<noteq> x" and "f \<noteq> y" and "\<not> Q"
  shows "(P1 \<or> P2 \<or> P3 \<or> P4 \<or> P5 \<or> (f = x \<and> F) \<or> (f = y \<and> G) \<or> (f = l \<and> Q) \<or> P9)
     \<longleftrightarrow> (P1 \<or> P2 \<or> P3 \<or> P4 \<or> P5 \<or> P9)"
  using assms by blast

text \<open>
  C9 (as amended). In the update workflow (valid identifier, no labels field, the current
  task fetched), the \<open>affectedFields\<close> metadata holds, apart from the entries
  \<open>repeatAfter\<close> and \<open>repeatMode\<close>, of which nothing is said here, exactly: each of title,
  description, dueDate, priority and done that is present in the request with a value
  different from the fetched one, and \<open>assignees\<close> whenever the request has an assignees
  field, equal to the current assignees or not. So a request that carries only fields among
  title, description, dueDate, priority and done, each equal to its current value, yields
  no affected field; and the remote update call is issued all the same, right after the
  fetch.
\<close>

theorem C9_affectedFields:
  assumes "id_arg a = Some i" and "1 \<le> i" and "labels a = None" and "dueDate_valid a"
    and "getClientFromContext cx = Inr cl" and "task_reply cl log (GetTask i) = Inr t"
  shows "(\<forall>f. f \<noteq> ''repeatAfter'' \<and> f \<noteq> ''repeatMode'' \<longrightarrow>
            (f \<in> set (affectedFields_of a t) \<longleftrightarrow>
               (f = ''title'' \<and> title a \<noteq> None \<and> title a \<noteq> task_title t)
             \<or> (f = ''description'' \<and> description a \<noteq> None \<and> description a \<noteq> task_description t)
             \<or> (f = ''dueDate'' \<and> dueDate a \<noteq> None \<and> dueDate a \<noteq> due_date t)
             \<or> (f = ''priority'' \<and> priority a \<noteq> None \<and> priority a \<noteq> task_priority t)
             \<or> (f = ''done'' \<and> done_arg a \<noteq> None \<and> done_arg a \<noteq> task_done t)
             \<or> (f = ''assignees'' \<and> assignees a \<noteq> None)))
     \<and> (\<forall>r. fst (updateTask cx a log) = Inr r \<longrightarrow>
            map_of (metadata r) ''affectedFields'' = Some (JArr (map JStr (affectedFields_of a t))))
     \<and> (\<exists>rest. snd (updateTask cx a log) = log @ GetTask i # UpdateTask i (buildUpdateData t a) # rest)
     \<and> ((title a = None \<or> title a = task_title t)
          \<and> (description a = None \<or> description a = task_description t)
          \<and> (dueDate a = None \<or> dueDate a = due_date t)
          \<and> (priority a = None \<or> priority a = task_priority t)
          \<and> (done_arg a = None \<or> done_arg a = task_done t)
          \<and> repeatAfter a = None \<and> repeatMode a = None \<and> assignees a = None
         \<longrightarrow> affectedFields_of a t = [])"
proof (intro conjI allI impI)
  fix f :: string
  assume n: "f \<noteq> ''repeatAfter'' \<and> f \<noteq> ''repeatMode''"
  have n1: "f \<noteq> ''repeatAfter''" and n2: "f \<noteq> ''repeatMode''"
    using n by (rule conjunct1, rule conjunct2)
  have nl: "\<not> labels a \<noteq> None"
    using assms(3) by (simp only: not_not)
  show "f \<in> set (affectedFields_of a t) \<longleftrightarrow>
               (f = ''title'' \<and> title a \<noteq> None \<and> title a \<noteq> task_title t)
             \<or> (f = ''description'' \<and> description a \<noteq> None \<and> description a \<noteq> task_description t)
             \<or> (f = ''dueDate'' \<and> dueDate a \<noteq> None \<and> dueDate a \<noteq> due_date t)
             \<or> (f = ''priority'' \<and> priority a \<noteq> None \<and> priority a \<noteq> task_priority t)
             \<or> (f = ''done'' \<and> done_arg a \<noteq> None \<and> done_arg a \<noteq> task_done t)
             \<or> (f = ''assignees'' \<and> assignees a \<noteq> None)"
    unfolding affectedFields_of_mem by (rule drop_cases [OF n1 n2 nl])
next
  fix r
  assume ok: "fst (updateTask cx a log) = Inr r"
  show "map_of (metadata r) ''affectedFields'' = Some (JArr (map JStr (affectedFields_of a t)))"
  proof (cases "unit_reply cl (log @ [GetTask i]) (UpdateTask i (buildUpdateData t a))")
    case (Inl e)
    with ok show ?thesis by (simp add: updateTask_run [OF assms])
  next
    case (Inr u)
    with ok have "fst (updateTask_continues cx cl a i t (log @ [GetTask i, UpdateTask i (buildUpdateData t a)])) = Inr r"
      by (simp add: updateTask_run [OF assms])
    then show ?thesis by (rule updateTask_continues_metadata)
  qed
next
  show "\<exists>rest. snd (updateTask cx a log) = log @ GetTask i # UpdateTask i (buildUpdateData t a) # rest"
  proof (cases "unit_reply cl (log @ [GetTask i]) (UpdateTask i (buildUpdateData t a))")
    case (Inl e)
    then show ?thesis by (simp add: updateTask_run [OF assms])
  next
    case (Inr u)
    obtain rest where "snd (updateTask_continues cx cl a i t (log @ [GetTask i, UpdateTask i (buildUpdateData t a)]))
        = (log @ [GetTask i, UpdateTask i (buildUpdateData t a)]) @ rest"
      using updateTask_continues_log by blast
    with Inr show ?thesis by (simp add: updateTask_run [OF assms])
  qed
next
  assume "(title a = None \<or> title a = task_title t)
          \<and> (description a = None \<or> description a = task_description t)
          \<and> (dueDate a = None \<or> dueDate a = due_date t)
          \<and> (priority a = None \<or> priority a = task_priority t)
          \<and> (done_arg a = None \<or> done_arg a = task_done t)
          \<and> repeatAfter a = None \<and> repeatMode a = None \<and> assignees a = None"
  with assms(3) show "affectedFields_of a t = []"
    by (auto simp: affectedFields_of_def pushed_if_def)
qed

lemma demo_update_plain:
  "updateTask (demo_ctx (steady_client demo_task)) (no_args\<lparr>id_arg := Some 123, priority := Some 3\<rparr>) []
   = (Inr (updateTask_response (demo_ctx (steady_client demo_task)) 123
            \<lparr>currentTask = demo_task, previousState = previousState_of demo_task, affectedFields = []\<rparr>
            demo_task),
      [GetTask 123, UpdateTask 123 demo_task, GetTask 123])"
  by (simp add: updateTask_def analyzeUpdateState_def tasks_getTask_def tasks_updateTask_def io_defs
      validateId_def no_args_def demo_ctx_def steady_client_def affectedFields_of_def pushed_if_def
      buildUpdateData_def demo_task_def)

theorem C9_affectedFields_witness:
  "id_arg (no_args\<lparr>id_arg := Some 123, priority := Some 3\<rparr>) = Some 123 \<and> (1::int) \<le> 123
   \<and> task_priority demo_task = Some 3
   \<and> affectedFields_of (no_args\<lparr>id_arg := Some 123, priority := Some 3\<rparr>) demo_task = []
   \<and> snd (updateTask (demo_ctx (steady_client demo_task)) (no_args\<lparr>id_arg := Some 123, priority := Some 3\<rparr>) [])
       = [GetTask 123, UpdateTask 123 demo_task, GetTask 123]"
proof -
  let ?a = "no_args\<lparr>id_arg := Some 123, priority := Some 3\<rparr>"
  have h: "id_arg ?a = Some 123" "(1::int) \<le> 123" "labels ?a = None" "dueDate_valid ?a"
    "getClientFromContext (demo_ctx (steady_client demo_task)) = Inr (steady_client demo_task)"
    "task_reply (steady_client demo_task) [] (GetTask 123) = Inr demo_task"
    by (simp_all add: no_args_def dueDate_valid_def demo_ctx_def steady_client_def)
  have p: "task_priority demo_task = Some 3" by (simp add: demo_task_def)
  have "affectedFields_of ?a demo_task = []"
    using C9_affectedFields [OF h] p by (simp add: no_args_def)
  with h p demo_update_plain show ?thesis by simp
qed

text \<open>
  The two repeat fields are compared as they stand, an interval in units with the fetched
  interval in seconds and a unit's name with the fetched mode flag: a request for the very
  repeat policy the task has leaves the payload as it was, and reports both fields.
\<close>

lemma repeat_fields_reported_without_change:
  "buildUpdateData (demo_task\<lparr>repeat_after := Some 86400, repeat_mode := Some (JNum 0)\<rparr>)
       (no_args\<lparr>id_arg := Some 123, repeatAfter := Some 1, repeatMode := Some day\<rparr>)
     = demo_task\<lparr>repeat_after := Some 86400, repeat_mode := Some (JNum 0)\<rparr>
   \<and> affectedFields_of (no_args\<lparr>id_arg := Some 123, repeatAfter := Some 1, repeatMode := Some day\<rparr>)
       (demo_task\<lparr>repeat_after := Some 86400, repeat_mode := Some (JNum 0)\<rparr>)
     = [''repeatAfter'', ''repeatMode'']"
proof -
  have "js_times (js_times (js_times 1 24) 60) 60 = 1 * 86400"
    by (rule day_seconds_exact) simp_all
  then show ?thesis
    by (simp add: buildUpdateData_def affectedFields_of_def pushed_if_def convertRepeatConfiguration_def
        no_args_def demo_task_def)
qed

text \<open>
  C9 as stated fails: a request that carries only the assignees the task already has is
  reported with \<open>assignees\<close> as an affected field.
\<close>

theorem C9_same_assignees_counterexample:
  "assignees (no_args\<lparr>id_arg := Some 123, assignees := Some [5]\<rparr>) = task_assignees demo_task
   \<and> updateTask (demo_ctx (steady_client demo_task)) (no_args\<lparr>id_arg := Some 123, assignees := Some [5]\<rparr>) []
       = (Inr (updateTask_response (demo_ctx (steady_client demo_task)) 123
                \<lparr>currentTask = demo_task, previousState = previousState_of demo_task,
                 affectedFields = [''assignees'']\<rparr> demo_task),
          [GetTask 123, UpdateTask 123 demo_task, GetTask 123, GetTask 123])
   \<and> map_of (metadata (updateTask_response (demo_ctx (steady_client demo_task)) 123
                \<lparr>currentTask = demo_task, previousState = previousState_of demo_task,
                 affectedFields = [''assignees'']\<rparr> demo_task)) ''affectedFields''
       = Some (JArr [JStr ''assignees''])"
  by (simp add: updateTask_def analyzeUpdateState_def tasks_getTask_def tasks_updateTask_def io_defs
      validateId_def no_args_def demo_ctx_def steady_client_def affectedFields_of_def pushed_if_def
      buildUpdateData_def demo_task_def updateTaskAssignees_def toAdd_def toRemove_def
      currentAssigneeIds_of_def updateTask_response_def)

subsection \<open>The create workflow's compensation\<close>

lemma rollbackTaskCreation_run:
  assumes "task_id (createdTask st) = Some tid" and "tid \<noteq> 0"
  shows "rollbackTaskCreation cl st e l
      = (Inl (rollbackError st e (unit_reply cl l (DeleteTask tid) = Inr ())), l @ [DeleteTask tid])"
  using assms
  by (simp add: rollbackTaskCreation_def tasks_deleteTask_def remote_def split: sum.splits)

lemma createTask_after:
  assumes "createTask_upToCreation cx a log = (Inr (cl, pid, used, created), log1)"
  shows "createTask cx a log =
     (case createTask_afterCreation cx cl a pid used created log1 of
        (Inl e, l) \<Rightarrow> (Inl (crudCatch cx ''create'' None e), l)
      | (Inr r, l) \<Rightarrow> (Inr r, l))"
  using assms by (simp add: createTask_def io_defs split: prod.splits sum.splits)

lemma crudCatch_rollbackError: "crudCatch cx opn i (rollbackError st e ok) = rollbackError st e ok"
  by (simp add: crudCatch_def rollbackError_def)

lemma rollbackMessage_reports: "str_includes (rollbackMessage e ok) (message e)"
  unfolding rollbackMessage_def by (rule str_includes_middle)

text \<open>
  C2. In the create workflow, once the base task has been created with a usable
  identifier: if applying the labels fails, or applying the assignees fails (after labels
  that were applied, or that were not asked for), the just-created task is deleted, that
  delete being the last call issued, and \<open>createTask\<close> fails with a single error. The error
  has code API_ERROR, its message contains the message of the failure, and its details
  record the task, whether labels and assignees had been applied, and
  \<open>rollbackSucceeded\<close>: true exactly when the delete call succeeded. The errors for a
  successful and a failed delete differ.
\<close>

theorem C2_create_rollback:
  assumes "createTask_upToCreation cx a log = (Inr (cl, pid, used, created), log1)"
    and "task_id created = Some tid" and "tid \<noteq> 0"
  shows "(labels a = Some ls \<and> ls \<noteq> [] \<and> addLabelsToTask cx cl tid ls log1 = (Inl e, log2) \<longrightarrow>
           createTask cx a log =
             (Inl (rollbackError \<lparr>createdTask = created, labelsAdded = False, assigneesAdded = False\<rparr> e
                     (unit_reply cl log2 (DeleteTask tid) = Inr ())),
              log2 @ [DeleteTask tid]))
     \<and> (labels a = Some ls \<and> ls \<noteq> [] \<and> addLabelsToTask cx cl tid ls log1 = (Inr (), logL)
          \<and> assignees a = Some us \<and> us \<noteq> [] \<and> addAssigneesToTask cx cl tid us logL = (Inl e, log2) \<longrightarrow>
           createTask cx a log =
             (Inl (rollbackError \<lparr>createdTask = created, labelsAdded = True, assigneesAdded = False\<rparr> e
                     (unit_reply cl log2 (DeleteTask tid) = Inr ())),
              log2 @ [DeleteTask tid]))
     \<and> ((labels a = None \<or> labels a = Some [])
          \<and> assignees a = Some us \<and> us \<noteq> [] \<and> addAssigneesToTask cx cl tid us log1 = (Inl e, log2) \<longrightarrow>
           createTask cx a log =
             (Inl (rollbackError \<lparr>createdTask = created, labelsAdded = False, assigneesAdded = False\<rparr> e
                     (unit_reply cl log2 (DeleteTask tid) = Inr ())),
              log2 @ [DeleteTask tid]))
     \<and> (\<forall>st ok. rollbackError st e ok =
           MCPError API_ERROR (rollbackMessage e ok)
             (Some \<lparr>ve_taskId = task_id (createdTask st), ve_partiallyCreated = True,
                    ve_labelsAdded = labelsAdded st, ve_assigneesAdded = assigneesAdded st,
                    ve_rollbackSucceeded = ok\<rparr>)
           \<and> str_includes (rollbackMessage e ok) (message e))
     \<and> (\<forall>st. rollbackError st e True \<noteq> rollbackError st e False)"
proof (intro conjI impI allI)
  assume h: "labels a = Some ls \<and> ls \<noteq> [] \<and> addLabelsToTask cx cl tid ls log1 = (Inl e, log2)"
  then have "createTask_afterCreation cx cl a pid used created log1
      = rollbackTaskCreation cl \<lparr>createdTask = created, labelsAdded = False, assigneesAdded = False\<rparr> e log2"
    using assms(2,3)
    by (simp add: createTask_afterCreation_def applyLabelsAndAssignees_def wanted_def)
  then show "createTask cx a log =
             (Inl (rollbackError \<lparr>createdTask = created, labelsAdded = False, assigneesAdded = False\<rparr> e
                     (unit_reply cl log2 (DeleteTask tid) = Inr ())),
              log2 @ [DeleteTask tid])"
    using assms(2,3)
    by (simp add: createTask_after [OF assms(1)] rollbackTaskCreation_run crudCatch_rollbackError)
next
  assume h: "labels a = Some ls \<and> ls \<noteq> [] \<and> addLabelsToTask cx cl tid ls log1 = (Inr (), logL)
          \<and> assignees a = Some us \<and> us \<noteq> [] \<and> addAssigneesToTask cx cl tid us logL = (Inl e, log2)"
  then have "createTask_afterCreation cx cl a pid used created log1
      = rollbackTaskCreation cl \<lparr>createdTask = created, labelsAdded = True, assigneesAdded = False\<rparr> e log2"
    using assms(2,3)
    by (simp add: createTask_afterCreation_def applyLabelsAndAssignees_def applyAssignees_def wanted_def)
  then show "createTask cx a log =
             (Inl (rollbackError \<lparr>createdTask = created, labelsAdded = True, assigneesAdded = False\<rparr> e
                     (unit_reply cl log2 (DeleteTask tid) = Inr ())),
              log2 @ [DeleteTask tid])"
    using assms(2,3)
    by (simp add: createTask_after [OF assms(1)] rollbackTaskCreation_run crudCatch_rollbackError)
next
  assume h: "(labels a = None \<or> labels a = Some [])
          \<and> assignees a = Some us \<and> us \<noteq> [] \<and> addAssigneesToTask cx cl tid us log1 = (Inl e, log2)"
  then have "createTask_afterCreation cx cl a pid used created log1
      = rollbackTaskCreation cl \<lparr>createdTask = created, labelsAdded = False, assigneesAdded = False\<rparr> e log2"
    using assms(2,3)
    by (auto simp: createTask_afterCreation_def applyLabelsAndAssignees_def applyAssignees_def wanted_def)
  then show "createTask cx a log =
             (Inl (rollbackError \<lparr>createdTask = created, labelsAdded = False, assigneesAdded = False\<rparr> e
                     (unit_reply cl log2 (DeleteTask tid) = Inr ())),
              log2 @ [DeleteTask tid])"
    using assms(2,3)
    by (simp add: createTask_after [OF assms(1)] rollbackTaskCreation_run crudCatch_rollbackError)
next
  fix st ok
  show "rollbackError st e ok =
           MCPError API_ERROR (rollbackMessage e ok)
             (Some \<lparr>ve_taskId = task_id (createdTask st), ve_partiallyCreated = True,
                    ve_labelsAdded = labelsAdded st, ve_assigneesAdded = assigneesAdded st,
                    ve_rollbackSucceeded = ok\<rparr>)"
    by (simp add: rollbackError_def)
  show "str_includes (rollbackMessage e ok) (message e)"
    by (rule rollbackMessage_reports)
next
  fix st
  show "rollbackError st e True \<noteq> rollbackError st e False"
    by (simp add: rollbackError_def)
qed


lemma demo_upToCreation:
  assumes "UpdateTaskLabels 123 [4] \<in> set bad" and "set bad \<subseteq> {UpdateTaskLabels 123 [4], DeleteTask 123}"
  shows "createTask_upToCreation (demo_ctx (failing_on bad (Error ''500'') (steady_client demo_task)))
      demo_create_args []
    = (Inr (failing_on bad (Error ''500'') (steady_client demo_task), 1, False, demo_task),
       [GetProject 1, CreateTask 1 (createTask_newTask demo_create_args ''Buy milk'' 1)])"
proof -
  have nb: "GetProject 1 \<notin> set bad" "CreateTask 1 (createTask_newTask demo_create_args ''Buy milk'' 1) \<notin> set bad"
    using assms(2) by auto
  have f: "title demo_create_args = Some ''Buy milk''" "projectId demo_create_args = Some 1"
    "dueDate demo_create_args = None" "assignees demo_create_args = None"
    by (simp_all add: demo_create_args_def no_args_def)
  show ?thesis
    by (simp add: createTask_upToCreation_def createTask_project_def validateProjectExists_def
        projects_getProject_def tasks_createTask_def io_defs validateId_def f
        demo_ctx_def failing_on_def steady_client_def nb del: set_simps)
qed

lemma demo_addLabels:
  assumes "UpdateTaskLabels 123 [4] \<in> set bad"
  shows "addLabelsToTask (demo_ctx (failing_on bad (Error ''500'') (steady_client demo_task)))
      (failing_on bad (Error ''500'') (steady_client demo_task)) 123 [4] l
    = (Inl (Error ''500''), l @ [UpdateTaskLabels 123 [4]])"
  using assms
  by (simp add: addLabelsToTask_def tasks_updateTaskLabels_def io_defs demo_ctx_def failing_on_def
      eval_nat_numeral del: set_simps)

theorem C2_create_rollback_witness:
  "createTask (demo_ctx (failing_on [UpdateTaskLabels 123 [4]] (Error ''500'') (steady_client demo_task)))
      demo_create_args []
    = (Inl (rollbackError \<lparr>createdTask = demo_task, labelsAdded = False, assigneesAdded = False\<rparr>
              (Error ''500'') True),
       [GetProject 1, CreateTask 1 (createTask_newTask demo_create_args ''Buy milk'' 1),
        UpdateTaskLabels 123 [4], DeleteTask 123])
   \<and> createTask (demo_ctx (failing_on [UpdateTaskLabels 123 [4], DeleteTask 123] (Error ''500'') (steady_client demo_task)))
      demo_create_args []
    = (Inl (rollbackError \<lparr>createdTask = demo_task, labelsAdded = False, assigneesAdded = False\<rparr>
              (Error ''500'') False),
       [GetProject 1, CreateTask 1 (createTask_newTask demo_create_args ''Buy milk'' 1),
        UpdateTaskLabels 123 [4], DeleteTask 123])
   \<and> rollbackMessage (Error ''500'') True
       = ''Failed to complete task creation: 500. Task was successfully rolled back.''
   \<and> rollbackMessage (Error ''500'') False
       = ''Failed to complete task creation: 500. Task rollback also failed - manual cleanup may be required.''"
proof -
  let ?log1 = "[GetProject 1, CreateTask 1 (createTask_newTask demo_create_args ''Buy milk'' 1)]"
  have t: "task_id demo_task = Some 123" "(123::int) \<noteq> 0" "labels demo_create_args = Some [4]"
    by (simp_all add: demo_task_def demo_create_args_def no_args_def)
  have ok: "unit_reply (failing_on [UpdateTaskLabels 123 [4]] (Error ''500'') (steady_client demo_task))
               (?log1 @ [UpdateTaskLabels 123 [4]]) (DeleteTask 123) = Inr ()"
    by (simp add: failing_on_def steady_client_def)
  have ko: "unit_reply (failing_on [UpdateTaskLabels 123 [4], DeleteTask 123] (Error ''500'') (steady_client demo_task))
               (?log1 @ [UpdateTaskLabels 123 [4]]) (DeleteTask 123) \<noteq> Inr ()"
    by (simp add: failing_on_def steady_client_def)
  have one: "createTask (demo_ctx (failing_on [UpdateTaskLabels 123 [4]] (Error ''500'') (steady_client demo_task)))
      demo_create_args []
    = (Inl (rollbackError \<lparr>createdTask = demo_task, labelsAdded = False, assigneesAdded = False\<rparr>
              (Error ''500'') True),
       (?log1 @ [UpdateTaskLabels 123 [4]]) @ [DeleteTask 123])"
    using C2_create_rollback [OF demo_upToCreation t(1,2), of "[UpdateTaskLabels 123 [4]]" "[4]" "Error ''500''"
        "?log1 @ [UpdateTaskLabels 123 [4]]"] t(3) demo_addLabels [of "[UpdateTaskLabels 123 [4]]" ?log1] ok
    by simp
  have two: "createTask (demo_ctx (failing_on [UpdateTaskLabels 123 [4], DeleteTask 123] (Error ''500'') (steady_client demo_task)))
      demo_create_args []
    = (Inl (rollbackError \<lparr>createdTask = demo_task, labelsAdded = False, assigneesAdded = False\<rparr>
              (Error ''500'') False),
       (?log1 @ [UpdateTaskLabels 123 [4]]) @ [DeleteTask 123])"
    using C2_create_rollback [OF demo_upToCreation t(1,2), of "[UpdateTaskLabels 123 [4], DeleteTask 123]" "[4]" "Error ''500''"
        "?log1 @ [UpdateTaskLabels 123 [4]]"] t(3)
        demo_addLabels [of "[UpdateTaskLabels 123 [4], DeleteTask 123]" ?log1] ko
    by simp
  have msg: "rollbackMessage (Error ''500'') True
       = ''Failed to complete task creation: 500. Task was successfully rolled back.''"
    "rollbackMessage (Error ''500'') False
       = ''Failed to complete task creation: 500. Task rollback also failed - manual cleanup may be required.''"
    by (simp_all add: rollbackMessage_def)
  from one two msg show ?thesis by simp
qed

subsection \<open>The relation kinds\<close>

lemma RELATION_KIND_MAP_keys:
  "map fst RELATION_KIND_MAP_entries =
     [''unknown'', ''subtask'', ''parenttask'', ''related'', ''duplicateof'', ''duplicates'',
      ''blocking'', ''blocked'', ''precedes'', ''follows'', ''copiedfrom'', ''copiedto'']"
  by (simp add: RELATION_KIND_MAP_entries_def)

lemma RELATION_KIND_MAP_None:
  "k \<notin> set (map fst RELATION_KIND_MAP_entries) \<Longrightarrow> k \<notin> set Object_prototype_properties
     \<Longrightarrow> RELATION_KIND_MAP k = None"
proof -
  assume a: "k \<notin> set (map fst RELATION_KIND_MAP_entries)" and b: "k \<notin> set Object_prototype_properties"
  from a have "map_of RELATION_KIND_MAP_entries k = None"
    by (simp add: map_of_eq_None_iff)
  with b show ?thesis by (simp add: RELATION_KIND_MAP_def)
qed

lemma RELATION_KIND_MAP_own:
  assumes "k \<in> set (map fst RELATION_KIND_MAP_entries)"
  shows "RELATION_KIND_MAP k = Some (JStr k)"
proof -
  have "\<forall>(x, y) \<in> set RELATION_KIND_MAP_entries. y = x"
    by (simp add: RELATION_KIND_MAP_entries_def)
  moreover from assms obtain v where "map_of RELATION_KIND_MAP_entries k = Some v"
    by (metis map_of_eq_None_iff not_Some_eq set_map)
  ultimately have "map_of RELATION_KIND_MAP_entries k = Some k"
    by (metis (mono_tags, lifting) case_prodD map_of_SomeD)
  then show ?thesis by (simp add: RELATION_KIND_MAP_def)
qed

lemma relate_rejects:
  assumes "relationKind a = Some k" and "RELATION_KIND_MAP k = None"
  shows "\<exists>m. relate cx cl a log = (Inl (MCPError VALIDATION_ERROR m None), log)"
proof (cases "id_arg a")
  case None
  then show ?thesis by (simp add: relate_def io_defs relate_idRequired_def wrapToolError_def)
next
  case i: (Some i)
  show ?thesis
  proof (cases "i = 0")
    case True
    with i show ?thesis by (simp add: relate_def io_defs relate_idRequired_def wrapToolError_def)
  next
    case nz: False
    show ?thesis
    proof (cases "validateId cx (Some i) ''Task ID''")
      case (Inl e)
      then obtain m where "e = MCPError VALIDATION_ERROR m None" using validateId_fails by blast
      with i nz Inl show ?thesis by (simp add: relate_def io_defs wrapToolError_def)
    next
      case v: (Inr u)
      show ?thesis
      proof (cases "otherTaskId a")
        case None
        with i nz v show ?thesis by (simp add: relate_def io_defs relate_otherRequired_def wrapToolError_def)
      next
        case o: (Some other)
        show ?thesis
        proof (cases "other = 0")
          case True
          with i nz v o show ?thesis by (simp add: relate_def io_defs relate_otherRequired_def wrapToolError_def)
        next
          case onz: False
          show ?thesis
          proof (cases "validateId cx (Some other) ''Other task ID''")
            case (Inl e)
            then obtain m where "e = MCPError VALIDATION_ERROR m None" using validateId_fails by blast
            with i nz v o onz Inl show ?thesis by (simp add: relate_def io_defs wrapToolError_def)
          next
            case ov: (Inr u')
            show ?thesis
            proof (cases "k = []")
              case True
              with i nz v o onz ov assms show ?thesis
                by (simp add: relate_def io_defs relate_kindRequired_def wrapToolError_def)
            next
              case False
              with i nz v o onz ov assms show ?thesis
                by (simp add: relate_def io_defs invalidRelationKind_def wrapToolError_def)
            qed
          qed
        qed
      qed
    qed
  qed
qed

lemma unrelate_rejects:
  assumes "relationKind a = Some k" and "RELATION_KIND_MAP k = None"
  shows "\<exists>m. unrelate cx cl a log = (Inl (MCPError VALIDATION_ERROR m None), log)"
proof (cases "id_arg a")
  case None
  then show ?thesis by (simp add: unrelate_def io_defs wrapToolError_def)
next
  case i: (Some i)
  show ?thesis
  proof (cases "i = 0")
    case True
    with i show ?thesis by (simp add: unrelate_def io_defs wrapToolError_def)
  next
    case nz: False
    show ?thesis
    proof (cases "validateId cx (Some i) ''Task ID''")
      case (Inl e)
      then obtain m where "e = MCPError VALIDATION_ERROR m None" using validateId_fails by blast
      with i nz Inl show ?thesis by (simp add: unrelate_def io_defs wrapToolError_def)
    next
      case v: (Inr u)
      show ?thesis
      proof (cases "otherTaskId a")
        case None
        with i nz v show ?thesis by (simp add: unrelate_def io_defs wrapToolError_def)
      next
        case o: (Some other)
        show ?thesis
        proof (cases "other = 0")
          case True
          with i nz v o show ?thesis by (simp add: unrelate_def io_defs wrapToolError_def)
        next
          case onz: False
          show ?thesis
          proof (cases "validateId cx (Some other) ''Other task ID''")
            case (Inl e)
            then obtain m where "e = MCPError VALIDATION_ERROR m None" using validateId_fails by blast
            with i nz v o onz Inl show ?thesis by (simp add: unrelate_def io_defs wrapToolError_def)
          next
            case ov: (Inr u')
            show ?thesis
            proof (cases "k = []")
              case True
              with i nz v o onz ov assms show ?thesis
                by (simp add: unrelate_def io_defs wrapToolError_def)
            next
              case False
              with i nz v o onz ov assms show ?thesis
                by (simp add: unrelate_def io_defs invalidRelationKind_def wrapToolError_def)
            qed
          qed
        qed
      qed
    qed
  qed
qed

lemma relate_accepts:
  assumes "relationKind a = Some k" and "RELATION_KIND_MAP k = Some kind"
    and "id_arg a = Some i" and "1 \<le> i" and "otherTaskId a = Some other" and "1 \<le> other"
  shows "\<exists>rest. snd (relate cx cl a log) = log @ CreateTaskRelation i i other kind # rest"
proof -
  from assms(2) have kn: "k \<noteq> []"
    by (auto simp: RELATION_KIND_MAP_def RELATION_KIND_MAP_entries_def Object_prototype_properties_def
        split: if_splits)
  from assms have nz: "i \<noteq> 0" "other \<noteq> 0" by auto
  show ?thesis
    using assms kn nz
    by (simp add: relate_def io_defs validateId_ok tasks_createTaskRelation_def tasks_getTask_def
        split: sum.splits)
qed

lemma unrelate_accepts:
  assumes "relationKind a = Some k" and "RELATION_KIND_MAP k = Some kind"
    and "id_arg a = Some i" and "1 \<le> i" and "otherTaskId a = Some other" and "1 \<le> other"
  shows "\<exists>rest. snd (unrelate cx cl a log) = log @ DeleteTaskRelation i kind other # rest"
proof -
  from assms(2) have kn: "k \<noteq> []"
    by (auto simp: RELATION_KIND_MAP_def RELATION_KIND_MAP_entries_def Object_prototype_properties_def
        split: if_splits)
  from assms have nz: "i \<noteq> 0" "other \<noteq> 0" by auto
  show ?thesis
    using assms kn nz
    by (simp add: unrelate_def io_defs validateId_ok tasks_deleteTaskRelation_def tasks_getTask_def
        split: sum.splits)
qed

text \<open>
  C7 (as amended). The relation kinds that relate and unrelate accept are the twelve keys
  of \<open>RELATION_KIND_MAP\<close>: unknown, subtask, parenttask, related, duplicateof, duplicates,
  blocking, blocked, precedes, follows, copiedfrom, copiedto. With one of them and two
  valid identifiers, the relation call is issued with that kind. With any other string
  that is not the name of a property every object inherits, the operation fails with a
  ValidationError and no call is issued: the log is unchanged.
\<close>

theorem C7_relation_kind_vocabulary:
  assumes "getClientFromContext cx = Inr cl" and "relationKind a = Some k"
  shows "map fst RELATION_KIND_MAP_entries =
           [''unknown'', ''subtask'', ''parenttask'', ''related'', ''duplicateof'', ''duplicates'',
            ''blocking'', ''blocked'', ''precedes'', ''follows'', ''copiedfrom'', ''copiedto'']
     \<and> (k \<notin> set (map fst RELATION_KIND_MAP_entries) \<and> k \<notin> set Object_prototype_properties
          \<and> (subcommand a = ''relate'' \<or> subcommand a = ''unrelate'') \<longrightarrow>
           (\<exists>m. handleRelationSubcommands cx a log = (Inl (MCPError VALIDATION_ERROR m None), log)))
     \<and> (k \<in> set (map fst RELATION_KIND_MAP_entries)
          \<and> id_arg a = Some i \<and> 1 \<le> i \<and> otherTaskId a = Some other \<and> 1 \<le> other \<longrightarrow>
           (subcommand a = ''relate'' \<longrightarrow>
              (\<exists>rest. snd (handleRelationSubcommands cx a log)
                        = log @ CreateTaskRelation i i other (JStr k) # rest))
         \<and> (subcommand a = ''unrelate'' \<longrightarrow>
              (\<exists>rest. snd (handleRelationSubcommands cx a log)
                        = log @ DeleteTaskRelation i (JStr k) other # rest)))"
proof (intro conjI impI)
  show "map fst RELATION_KIND_MAP_entries =
           [''unknown'', ''subtask'', ''parenttask'', ''related'', ''duplicateof'', ''duplicates'',
            ''blocking'', ''blocked'', ''precedes'', ''follows'', ''copiedfrom'', ''copiedto'']"
    by (rule RELATION_KIND_MAP_keys)
next
  assume h: "k \<notin> set (map fst RELATION_KIND_MAP_entries) \<and> k \<notin> set Object_prototype_properties
          \<and> (subcommand a = ''relate'' \<or> subcommand a = ''unrelate'')"
  then have none: "RELATION_KIND_MAP k = None" by (simp add: RELATION_KIND_MAP_None)
  from h have "subcommand a = ''relate'' \<or> subcommand a = ''unrelate''" by simp
  then show "\<exists>m. handleRelationSubcommands cx a log = (Inl (MCPError VALIDATION_ERROR m None), log)"
  proof
    assume "subcommand a = ''relate''"
    then have "handleRelationSubcommands cx a log = relate cx cl a log"
      using assms(1) by (simp add: handleRelationSubcommands_def await_def lift_def)
    then show ?thesis using relate_rejects [OF assms(2) none] by simp
  next
    assume "subcommand a = ''unrelate''"
    then have "handleRelationSubcommands cx a log = unrelate cx cl a log"
      using assms(1) by (simp add: handleRelationSubcommands_def await_def lift_def)
    then show ?thesis using unrelate_rejects [OF assms(2) none] by simp
  qed
next
  assume h: "k \<in> set (map fst RELATION_KIND_MAP_entries)
          \<and> id_arg a = Some i \<and> 1 \<le> i \<and> otherTaskId a = Some other \<and> 1 \<le> other"
    and s: "subcommand a = ''relate''"
  from h have own: "RELATION_KIND_MAP k = Some (JStr k)" by (simp add: RELATION_KIND_MAP_own)
  from s have "handleRelationSubcommands cx a log = relate cx cl a log"
    using assms(1) by (simp add: handleRelationSubcommands_def await_def lift_def)
  then show "\<exists>rest. snd (handleRelationSubcommands cx a log)
                        = log @ CreateTaskRelation i i other (JStr k) # rest"
    using relate_accepts [OF assms(2) own, of i other cx cl log] h by simp
next
  assume h: "k \<in> set (map fst RELATION_KIND_MAP_entries)
          \<and> id_arg a = Some i \<and> 1 \<le> i \<and> otherTaskId a = Some other \<and> 1 \<le> other"
    and s: "subcommand a = ''unrelate''"
  from h have own: "RELATION_KIND_MAP k = Some (JStr k)" by (simp add: RELATION_KIND_MAP_own)
  from s have "handleRelationSubcommands cx a log = unrelate cx cl a log"
    using assms(1) by (simp add: handleRelationSubcommands_def await_def lift_def)
  then show "\<exists>rest. snd (handleRelationSubcommands cx a log)
                        = log @ DeleteTaskRelation i (JStr k) other # rest"
    using unrelate_accepts [OF assms(2) own, of i other cx cl log] h by simp
qed


lemma demo_relate_fields:
  "subcommand (demo_relate_args k) = ''relate''" "id_arg (demo_relate_args k) = Some 123"
  "otherTaskId (demo_relate_args k) = Some 456" "relationKind (demo_relate_args k) = Some k"
  by (simp_all add: demo_relate_args_def no_args_def)

lemma demo_client: "getClientFromContext (demo_ctx cl) = Inr cl"
  by (simp add: demo_ctx_def)

theorem C7_relation_kind_witness:
  "(\<exists>rest. snd (handleRelationSubcommands (demo_ctx (steady_client demo_task)) (demo_relate_args ''subtask'') [])
      = [] @ CreateTaskRelation 123 123 456 (JStr ''subtask'') # rest)
   \<and> (\<exists>m. handleRelationSubcommands (demo_ctx (steady_client demo_task)) (demo_relate_args ''sibling'') []
      = (Inl (MCPError VALIDATION_ERROR m None), []))"
proof -
  have in_vocabulary: "''subtask'' \<in> set (map fst RELATION_KIND_MAP_entries)"
    by (simp add: RELATION_KIND_MAP_entries_def)
  have outside: "''sibling'' \<notin> set (map fst RELATION_KIND_MAP_entries)"
    "''sibling'' \<notin> set Object_prototype_properties"
    by (simp_all add: RELATION_KIND_MAP_entries_def Object_prototype_properties_def)
  have bounds: "(1::int) \<le> 123" "(1::int) \<le> 456"
    by simp_all
  have one: "\<exists>rest. snd (handleRelationSubcommands (demo_ctx (steady_client demo_task)) (demo_relate_args ''subtask'') [])
      = [] @ CreateTaskRelation 123 123 456 (JStr ''subtask'') # rest"
    using in_vocabulary demo_relate_fields [of "''subtask''"] bounds
      C7_relation_kind_vocabulary [OF demo_client [of "steady_client demo_task"] demo_relate_fields(4) [of "''subtask''"],
        where i = 123 and other = 456 and log = "[]"]
    by blast
  have two: "\<exists>m. handleRelationSubcommands (demo_ctx (steady_client demo_task)) (demo_relate_args ''sibling'') []
      = (Inl (MCPError VALIDATION_ERROR m None), [])"
    using outside demo_relate_fields [of "''sibling''"]
      C7_relation_kind_vocabulary [OF demo_client [of "steady_client demo_task"] demo_relate_fields(4) [of "''sibling''"],
        where i = 123 and other = 456 and log = "[]"]
    by blast
  from one two show ?thesis by blast
qed

lemma demo_relate_run:
  assumes "RELATION_KIND_MAP k = Some kind" and "k \<noteq> []"
  shows "handleRelationSubcommands (demo_ctx (steady_client demo_task)) (demo_relate_args k) []
    = (Inr (relation_response (demo_ctx (steady_client demo_task)) ''relate'' ''created'' k 123 456 demo_task),
       [CreateTaskRelation 123 123 456 kind, GetTask 123])"
  using assms
  by (simp add: handleRelationSubcommands_def relate_def io_defs demo_relate_fields demo_client
      validateId_def tasks_createTaskRelation_def tasks_getTask_def steady_client_def)

text \<open>
  C7 as stated fails: \<open>parenttask\<close> is not in the specification's list and is accepted,
  and \<open>parent\<close>, which is in the list, is rejected.
\<close>

theorem C7_parenttask_counterexample:
  "''parenttask'' \<notin> set spec_relation_kinds
   \<and> handleRelationSubcommands (demo_ctx (steady_client demo_task)) (demo_relate_args ''parenttask'') []
       = (Inr (relation_response (demo_ctx (steady_client demo_task)) ''relate'' ''created'' ''parenttask''
                123 456 demo_task),
          [CreateTaskRelation 123 123 456 (JStr ''parenttask''), GetTask 123])
   \<and> ''parent'' \<in> set spec_relation_kinds
   \<and> handleRelationSubcommands (demo_ctx (steady_client demo_task)) (demo_relate_args ''parent'') []
       = (Inl (invalidRelationKind ''parent''), [])"
proof -
  have a: "''parenttask'' \<notin> set spec_relation_kinds" "''parent'' \<in> set spec_relation_kinds"
    by (simp_all add: spec_relation_kinds_def)
  have k: "RELATION_KIND_MAP ''parenttask'' = Some (JStr ''parenttask'')"
    by (simp add: RELATION_KIND_MAP_def RELATION_KIND_MAP_entries_def)
  have n: "RELATION_KIND_MAP ''parent'' = None"
    by (simp add: RELATION_KIND_MAP_def RELATION_KIND_MAP_entries_def Object_prototype_properties_def)
  have r: "handleRelationSubcommands (demo_ctx (steady_client demo_task)) (demo_relate_args ''parent'') []
       = (Inl (invalidRelationKind ''parent''), [])"
    using n
    by (simp add: handleRelationSubcommands_def relate_def io_defs demo_relate_fields demo_client
        validateId_def wrapToolError_def invalidRelationKind_def)
  from a demo_relate_run [OF k] r show ?thesis by simp
qed

text \<open>
  A name that every object inherits passes the lookup as well: the relation call is issued
  with the inherited function in place of a relation kind.
\<close>

lemma relate_inherited_name:
  "handleRelationSubcommands (demo_ctx (steady_client demo_task)) (demo_relate_args ''toString'') []
     = (Inr (relation_response (demo_ctx (steady_client demo_task)) ''relate'' ''created'' ''toString''
              123 456 demo_task),
        [CreateTaskRelation 123 123 456 (JBuiltin ''toString''), GetTask 123])"
proof -
  have "RELATION_KIND_MAP ''toString'' = Some (JBuiltin ''toString'')"
    by (simp add: RELATION_KIND_MAP_def RELATION_KIND_MAP_entries_def Object_prototype_properties_def)
  then show ?thesis using demo_relate_run by simp
qed

subsection \<open>Listing with a filter\<close>

lemmas list_defs = listTasks_def executeTaskFiltering_def filteringMessage_def filteringMetadata_def
  spread_def tasks_getAllTasks_def

text \<open>
  C4. For a listing request with a filter expression, a successful result's metadata shows
  one of exactly three outcomes: filtered on the server (used and attempted), attempted on
  the server and evaluated on the client after the server's rejection (attempted, not
  used), or evaluated on the client with no server attempt (neither). Each outcome arises,
  with its own text in the message. In particular, when the server rejects the expression
  and the unfiltered fetch succeeds, the result is a success tagged as the client-side
  fallback; any other failure of the filtered call is an error, not a fallback.
\<close>

theorem C4_filtering_outcomes:
  assumes "getClientFromContext cx = Inr cl" and "filter_expr a = Some f"
  shows "(\<forall>r. fst (listTasks cx a log) = Inr r \<longrightarrow>
            (map_of (metadata r) ''serverSideFilteringUsed'' = Some (JBool True)
               \<and> map_of (metadata r) ''serverSideFilteringAttempted'' = Some (JBool True))
          \<or> (map_of (metadata r) ''serverSideFilteringUsed'' = Some (JBool False)
               \<and> map_of (metadata r) ''serverSideFilteringAttempted'' = Some (JBool True))
          \<or> (map_of (metadata r) ''serverSideFilteringUsed'' = Some (JBool False)
               \<and> map_of (metadata r) ''serverSideFilteringAttempted'' = Some (JBool False)))
     \<and> (\<not> knownIncompatible cx f \<and> tasks_reply cl log (GetAllTasks (Some f)) = Inr ts \<longrightarrow>
           (\<exists>r. listTasks cx a log = (Inr r, log @ [GetAllTasks (Some f)])
              \<and> map_of (metadata r) ''serverSideFilteringUsed'' = Some (JBool True)
              \<and> map_of (metadata r) ''serverSideFilteringAttempted'' = Some (JBool True)
              \<and> data r = TasksPayload ts
              \<and> (f \<noteq> [] \<longrightarrow> message_of r
                    = ''Found '' @ show_nat (length ts) @ '' tasks (filtered server-side)'')))
     \<and> (\<not> knownIncompatible cx f \<and> tasks_reply cl log (GetAllTasks (Some f)) = Inl e
          \<and> isFilterRejection cx e
          \<and> tasks_reply cl (log @ [GetAllTasks (Some f)]) (GetAllTasks None) = Inr ts \<longrightarrow>
           (\<exists>r. listTasks cx a log = (Inr r, log @ [GetAllTasks (Some f), GetAllTasks None])
              \<and> map_of (metadata r) ''serverSideFilteringUsed'' = Some (JBool False)
              \<and> map_of (metadata r) ''serverSideFilteringAttempted'' = Some (JBool True)
              \<and> data r = TasksPayload (filter (evaluateFilter cx f) ts)
              \<and> (f \<noteq> [] \<longrightarrow> message_of r
                    = ''Found '' @ show_nat (length (filter (evaluateFilter cx f) ts))
                      @ '' tasks (filtered client-side - server-side fallback)'')))
     \<and> (knownIncompatible cx f \<and> tasks_reply cl log (GetAllTasks None) = Inr ts \<longrightarrow>
           (\<exists>r. listTasks cx a log = (Inr r, log @ [GetAllTasks None])
              \<and> map_of (metadata r) ''serverSideFilteringUsed'' = Some (JBool False)
              \<and> map_of (metadata r) ''serverSideFilteringAttempted'' = Some (JBool False)
              \<and> data r = TasksPayload (filter (evaluateFilter cx f) ts)
              \<and> (f \<noteq> [] \<longrightarrow> message_of r
                    = ''Found '' @ show_nat (length (filter (evaluateFilter cx f) ts))
                      @ '' tasks (filtered client-side)'')))
     \<and> (\<not> knownIncompatible cx f \<and> tasks_reply cl log (GetAllTasks (Some f)) = Inl e
          \<and> \<not> isFilterRejection cx e \<longrightarrow>
           listTasks cx a log
             = (Inl (if instanceof_MCPError e then e else handleFetchError cx e ''list tasks''),
                log @ [GetAllTasks (Some f)]))"
proof (intro conjI allI impI)
  fix r
  assume "fst (listTasks cx a log) = Inr r"
  then show "(map_of (metadata r) ''serverSideFilteringUsed'' = Some (JBool True)
               \<and> map_of (metadata r) ''serverSideFilteringAttempted'' = Some (JBool True))
          \<or> (map_of (metadata r) ''serverSideFilteringUsed'' = Some (JBool False)
               \<and> map_of (metadata r) ''serverSideFilteringAttempted'' = Some (JBool True))
          \<or> (map_of (metadata r) ''serverSideFilteringUsed'' = Some (JBool False)
               \<and> map_of (metadata r) ''serverSideFilteringAttempted'' = Some (JBool False))"
    using assms
    by (auto simp: list_defs io_defs split: if_splits sum.splits prod.splits)
next
  assume "\<not> knownIncompatible cx f \<and> tasks_reply cl log (GetAllTasks (Some f)) = Inr ts"
  then show "\<exists>r. listTasks cx a log = (Inr r, log @ [GetAllTasks (Some f)])
              \<and> map_of (metadata r) ''serverSideFilteringUsed'' = Some (JBool True)
              \<and> map_of (metadata r) ''serverSideFilteringAttempted'' = Some (JBool True)
              \<and> data r = TasksPayload ts
              \<and> (f \<noteq> [] \<longrightarrow> message_of r
                    = ''Found '' @ show_nat (length ts) @ '' tasks (filtered server-side)'')"
    using assms by (simp add: list_defs io_defs)
next
  assume "\<not> knownIncompatible cx f \<and> tasks_reply cl log (GetAllTasks (Some f)) = Inl e
          \<and> isFilterRejection cx e
          \<and> tasks_reply cl (log @ [GetAllTasks (Some f)]) (GetAllTasks None) = Inr ts"
  then show "\<exists>r. listTasks cx a log = (Inr r, log @ [GetAllTasks (Some f), GetAllTasks None])
              \<and> map_of (metadata r) ''serverSideFilteringUsed'' = Some (JBool False)
              \<and> map_of (metadata r) ''serverSideFilteringAttempted'' = Some (JBool True)
              \<and> data r = TasksPayload (filter (evaluateFilter cx f) ts)
              \<and> (f \<noteq> [] \<longrightarrow> message_of r
                    = ''Found '' @ show_nat (length (filter (evaluateFilter cx f) ts))
                      @ '' tasks (filtered client-side - server-side fallback)'')"
    using assms by (simp add: list_defs io_defs)
next
  assume "knownIncompatible cx f \<and> tasks_reply cl log (GetAllTasks None) = Inr ts"
  then show "\<exists>r. listTasks cx a log = (Inr r, log @ [GetAllTasks None])
              \<and> map_of (metadata r) ''serverSideFilteringUsed'' = Some (JBool False)
              \<and> map_of (metadata r) ''serverSideFilteringAttempted'' = Some (JBool False)
              \<and> data r = TasksPayload (filter (evaluateFilter cx f) ts)
              \<and> (f \<noteq> [] \<longrightarrow> message_of r
                    = ''Found '' @ show_nat (length (filter (evaluateFilter cx f) ts))
                      @ '' tasks (filtered client-side)'')"
    using assms by (simp add: list_defs io_defs)
next
  assume "\<not> knownIncompatible cx f \<and> tasks_reply cl log (GetAllTasks (Some f)) = Inl e
          \<and> \<not> isFilterRejection cx e"
  then show "listTasks cx a log
             = (Inl (if instanceof_MCPError e then e else handleFetchError cx e ''list tasks''),
                log @ [GetAllTasks (Some f)])"
    using assms by (simp add: list_defs io_defs)
qed

theorem C4_filtering_witness:
  "\<exists>r. listTasks (demo_ctx (failing_on [GetAllTasks (Some ''priority >= 3'')] (Error ''400 Bad Request'')
                      (steady_client demo_task))) demo_list_args []
          = (Inr r, [] @ [GetAllTasks (Some ''priority >= 3''), GetAllTasks None])
      \<and> map_of (metadata r) ''serverSideFilteringUsed'' = Some (JBool False)
      \<and> map_of (metadata r) ''serverSideFilteringAttempted'' = Some (JBool True)
      \<and> message_of r = ''Found 1 tasks (filtered client-side - server-side fallback)''"
proof -
  let ?cl = "failing_on [GetAllTasks (Some ''priority >= 3'')] (Error ''400 Bad Request'') (steady_client demo_task)"
  have h: "getClientFromContext (demo_ctx ?cl) = Inr ?cl" "filter_expr demo_list_args = Some ''priority >= 3''"
    by (simp_all add: demo_ctx_def demo_list_args_def no_args_def)
  have p: "\<not> knownIncompatible (demo_ctx ?cl) ''priority >= 3''
      \<and> tasks_reply ?cl [] (GetAllTasks (Some ''priority >= 3'')) = Inl (Error ''400 Bad Request'')
      \<and> isFilterRejection (demo_ctx ?cl) (Error ''400 Bad Request'')
      \<and> tasks_reply ?cl ([] @ [GetAllTasks (Some ''priority >= 3'')]) (GetAllTasks None) = Inr [demo_task]"
    by (simp add: demo_ctx_def failing_on_def steady_client_def)
  have e: "filter (evaluateFilter (demo_ctx ?cl) ''priority >= 3'') [demo_task] = [demo_task]"
    "''priority >= 3'' \<noteq> []" "show_nat (length [demo_task]) = ''1''"
    by (simp_all add: demo_ctx_def show_defs)
  from C4_filtering_outcomes [OF h, where log = "[]" and ts = "[demo_task]" and e = "Error ''400 Bad Request''"] p
  have "\<exists>r. listTasks (demo_ctx ?cl) demo_list_args [] = (Inr r, [] @ [GetAllTasks (Some ''priority >= 3''), GetAllTasks None])
              \<and> map_of (metadata r) ''serverSideFilteringUsed'' = Some (JBool False)
              \<and> map_of (metadata r) ''serverSideFilteringAttempted'' = Some (JBool True)
              \<and> data r = TasksPayload (filter (evaluateFilter (demo_ctx ?cl) ''priority >= 3'') [demo_task])
              \<and> (''priority >= 3'' \<noteq> [] \<longrightarrow> message_of r
                    = ''Found '' @ show_nat (length (filter (evaluateFilter (demo_ctx ?cl) ''priority >= 3'') [demo_task]))
                      @ '' tasks (filtered client-side - server-side fallback)'')"
    by blast
  then show ?thesis
    unfolding e by (simp, blast)
qed

end
